theory Spec2Isabelle
  imports Main
begin

section \<open>Values, faults and the remote world\<close>

text \<open>
  The server is a Python module \<^verbatim>\<open>main.py\<close>. Its dictionaries are association lists
  (insertion order is kept, as in Python), JSON values are a datatype, and every exception
  is a value of type \<open>fault\<close>. The three constructors follow the handlers of the source:
  \<^verbatim>\<open>except HttpError\<close> comes first and sees the provider's status
  (\<^verbatim>\<open>error.resp.status\<close>, absent when \<^verbatim>\<open>hasattr(error, 'resp')\<close> is false),
  \<^verbatim>\<open>except Exception\<close> sees everything else. Each fault carries \<^verbatim>\<open>str(error)\<close>.
\<close>

datatype json =
    JNull
  | JBool bool
  | JInt int
  | JStr string
  | JList "json list"
  | JObj "(string \<times> json) list"

type_synonym dict = "(string \<times> json) list"

datatype fault =
    HttpError "nat option" string
  | ValueError string
  | OtherException string

fun str_of :: "fault \<Rightarrow> string" where
  "str_of (HttpError st s) = s"
| "str_of (ValueError s) = s"
| "str_of (OtherException s) = s"

text \<open>Python's truth value of an \<^verbatim>\<open>Optional[str]\<close>: \<^verbatim>\<open>None\<close> and \<^verbatim>\<open>""\<close> are false.\<close>

definition truthy :: "string option \<Rightarrow> bool" where
  "truthy x = (case x of None \<Rightarrow> False | Some s \<Rightarrow> s \<noteq> [])"

text \<open>Decimal numerals, as \<^verbatim>\<open>str(n)\<close> and the format fields \<^verbatim>\<open>%02d\<close> print them.\<close>

definition digit :: "nat \<Rightarrow> char" where
  "digit n = ''0123456789'' ! n"

function show_nat :: "nat \<Rightarrow> string" where
  "show_nat n = (if n < 10 then [digit n] else show_nat (n div 10) @ [digit (n mod 10)])"
  by pat_completeness auto
termination
  by (relation "measure id") auto

declare show_nat.simps [simp del]

definition pad :: "nat \<Rightarrow> nat \<Rightarrow> string" where
  "pad width n = replicate (width - length (show_nat n)) (CHR ''0'') @ show_nat n"

text \<open>
  A naive \<^verbatim>\<open>datetime\<close> (no time zone), as \<^verbatim>\<open>datetime.now()\<close> returns it, with
  \<^verbatim>\<open>isoformat()\<close> and the \<^verbatim>\<open>strftime('%Y%m%d%H%M%S')\<close> of the conference request.
\<close>

record datetime =
  year :: nat
  month :: nat
  day :: nat
  hour :: nat
  minute :: nat
  second :: nat
  microsecond :: nat

definition isoformat :: "datetime \<Rightarrow> string" where
  "isoformat d =
     pad 4 (year d) @ ''-'' @ pad 2 (month d) @ ''-'' @ pad 2 (day d) @ ''T'' @
     pad 2 (hour d) @ '':'' @ pad 2 (minute d) @ '':'' @ pad 2 (second d) @
     (if microsecond d \<noteq> 0 then ''.'' @ pad 6 (microsecond d) else [])"

definition strftime_compact :: "datetime \<Rightarrow> string" where
  "strftime_compact d =
     pad 4 (year d) @ pad 2 (month d) @ pad 2 (day d) @
     pad 2 (hour d) @ pad 2 (minute d) @ pad 2 (second d)"

text \<open>
  The OAuth2 credential object built from the vault's payload (its \<^verbatim>\<open>expiry\<close> is
  \<^verbatim>\<open>None\<close> unless the constructor is given one), the service handle that
  \<^verbatim>\<open>build('calendar', 'v3', credentials=creds)\<close> returns, and the requests that leave
  the process. Building the handle is taken to be local: it wraps the credential, makes no
  request and does not raise.
\<close>

record credentials =
  token :: "string option"
  refresh_token :: "string option"
  token_uri :: string
  client_id :: "string option"
  client_secret :: "string option"
  scopes :: "string list"
  expiry :: "datetime option"

datatype service = Service credentials

record vault_request =
  req_url :: string
  req_params :: "(string \<times> string) list"
  req_headers :: "(string \<times> string) list"

datatype remote_call =
    VaultGet vault_request
  | TokenRefresh credentials
  | CalendarListList service "(string \<times> string) list"
  | EventsList service dict
  | EventsInsert service string dict
  | EventsDelete service string string

text \<open>
  The vault's answer is a JSON object whose \<^verbatim>\<open>credentials\<close> member (when present) is a
  dictionary of strings; a page of the calendar list and the answer of the events list
  keep the members the source reads (\<^verbatim>\<open>items\<close>, \<^verbatim>\<open>nextPageToken\<close>), \<open>None\<close> where the
  member is absent.
\<close>

type_synonym nango_response = "(string \<rightharpoonup> string) option"

record calendar_page =
  cal_items :: "json list option"
  nextPageToken :: "string option"

record events_page =
  ev_items :: "dict list option"

text \<open>
  Everything outside the process is a parameter: the environment variables (after
  \<^verbatim>\<open>load_dotenv\<close>), the clock, the date arithmetic of \<^verbatim>\<open>now + timedelta(days=n)\<close>
  (which can overflow), the vault (\<^verbatim>\<open>requests.get\<close>, \<^verbatim>\<open>raise_for_status\<close> and
  \<^verbatim>\<open>response.json()\<close> together), the credential library's comparison of an expiry with
  its own clock and its \<^verbatim>\<open>refresh\<close> method, and the four calendar endpoints. The calendar list is asked
  several times in one call, so its answer may depend on the number of the request.
\<close>

record world =
  environ :: "string \<Rightarrow> string option"
  now :: datetime
  add_days :: "datetime \<Rightarrow> int \<Rightarrow> fault + datetime"
  vault_get :: "vault_request \<Rightarrow> fault + nango_response"
  expiry_passed :: "datetime \<Rightarrow> bool"
  refresh :: "credentials \<Rightarrow> fault + credentials"
  calendarList_list :: "nat \<Rightarrow> service \<Rightarrow> (string \<times> string) list \<Rightarrow> fault + calendar_page"
  events_list :: "service \<Rightarrow> dict \<Rightarrow> fault + events_page"
  events_insert :: "service \<Rightarrow> string \<Rightarrow> dict \<Rightarrow> fault + dict"
  events_delete :: "service \<Rightarrow> string \<Rightarrow> string \<Rightarrow> fault + unit"

text \<open>
  The credential library's two properties. \<^verbatim>\<open>expired\<close> is false for a credential
  without an expiry (\<^verbatim>\<open>if not self.expiry: return False\<close>) and otherwise compares the
  expiry with the clock; \<^verbatim>\<open>valid\<close> is
  \<^verbatim>\<open>self.token is not None and not self.expired\<close>.
\<close>

definition expired :: "world \<Rightarrow> credentials \<Rightarrow> bool" where
  "expired w creds = (case expiry creds of None \<Rightarrow> False | Some t \<Rightarrow> expiry_passed w t)"

definition valid :: "world \<Rightarrow> credentials \<Rightarrow> bool" where
  "valid w creds = (token creds \<noteq> None \<and> \<not> expired w creds)"

section \<open>Computations that log their remote calls and may raise\<close>

text \<open>
  A computation returns the list of remote calls it made, in order, and either the fault
  it raised or its value.
\<close>

type_synonym 'a io = "remote_call list \<times> (fault + 'a)"

definition io_ret :: "'a \<Rightarrow> 'a io" where
  "io_ret v = ([], Inr v)"

definition io_raise :: "fault \<Rightarrow> 'a io" where
  "io_raise e = ([], Inl e)"

definition remote :: "remote_call \<Rightarrow> fault + 'a \<Rightarrow> 'a io" where
  "remote c r = ([c], r)"

definition io_bind :: "'a io \<Rightarrow> ('a \<Rightarrow> 'b io) \<Rightarrow> 'b io" where
  "io_bind m f =
     (case m of
        (l, Inl e) \<Rightarrow> (l, Inl e)
      | (l, Inr v) \<Rightarrow> (case f v of (l', r) \<Rightarrow> (l @ l', r)))"

definition try_except :: "'a io \<Rightarrow> (fault \<Rightarrow> 'a io) \<Rightarrow> 'a io" where
  "try_except m handler =
     (case m of
        (l, Inl e) \<Rightarrow> (case handler e of (l', r) \<Rightarrow> (l @ l', r))
      | (l, Inr v) \<Rightarrow> (l, Inr v))"

section \<open>Module start: required environment variables\<close>

definition startup :: "world \<Rightarrow> fault + string \<times> string" where
  "startup w =
     (let NANGO_CONNECTION_ID = environ w ''NANGO_CONNECTION_ID'';
          NANGO_INTEGRATION_ID = environ w ''NANGO_INTEGRATION_ID''
      in case NANGO_CONNECTION_ID of
           None \<Rightarrow> Inl (ValueError ''NANGO_CONNECTION_ID environment variable is required'')
         | Some c \<Rightarrow>
             if c = [] then Inl (ValueError ''NANGO_CONNECTION_ID environment variable is required'')
             else (case NANGO_INTEGRATION_ID of
                     None \<Rightarrow> Inl (ValueError ''NANGO_INTEGRATION_ID environment variable is required'')
                   | Some i \<Rightarrow>
                       if i = [] then Inl (ValueError ''NANGO_INTEGRATION_ID environment variable is required'')
                       else Inr (c, i)))"

section \<open>GoogleCalendarAuth\<close>

definition SCOPES :: "string list" where
  "SCOPES = [''https://www.googleapis.com/auth/calendar'']"

definition get_connection_credentials :: "world \<Rightarrow> string \<Rightarrow> string \<Rightarrow> nango_response io" where
  "get_connection_credentials w connection_id provider_config_key =
     (let base_url = environ w ''NANGO_NANGO_BASE_URL'';
          secret_key = environ w ''NANGO_NANGO_SECRET_KEY''
      in case base_url of
           None \<Rightarrow> io_raise (ValueError ''NANGO_NANGO_BASE_URL and NANGO_NANGO_SECRET_KEY must be set'')
         | Some b \<Rightarrow>
            (case secret_key of
               None \<Rightarrow> io_raise (ValueError ''NANGO_NANGO_BASE_URL and NANGO_NANGO_SECRET_KEY must be set'')
             | Some s \<Rightarrow>
                 if b = [] \<or> s = []
                 then io_raise (ValueError ''NANGO_NANGO_BASE_URL and NANGO_NANGO_SECRET_KEY must be set'')
                 else
                   (let req = \<lparr> req_url = b @ ''/connection/'' @ connection_id,
                                req_params = [(''provider_config_key'', provider_config_key),
                                              (''refresh_token'', ''true'')],
                                req_headers = [(''Authorization'', ''Bearer '' @ s)] \<rparr>
                    in remote (VaultGet req) (vault_get w req))))"

text \<open>
  The call of the \<^verbatim>\<open>Credentials\<close> constructor: six arguments, none of them an expiry.
\<close>

definition make_credentials :: "nango_response \<Rightarrow> credentials" where
  "make_credentials nango_response =
     (let credentials_data = (case nango_response of None \<Rightarrow> Map.empty | Some d \<Rightarrow> d)
      in \<lparr> token = credentials_data ''access_token'',
           refresh_token = credentials_data ''refresh_token'',
           token_uri = ''https://oauth2.googleapis.com/token'',
           client_id = credentials_data ''client_id'',
           client_secret = credentials_data ''client_secret'',
           scopes = SCOPES,
           expiry = None \<rparr>)"

text \<open>The handler of \<^verbatim>\<open>authenticate_google_calendar\<close> logs and raises the fault again.\<close>

definition authenticate_google_calendar :: "world \<Rightarrow> string \<Rightarrow> string \<Rightarrow> service io" where
  "authenticate_google_calendar w connection_id provider_config_key =
     try_except
       (io_bind (get_connection_credentials w connection_id provider_config_key)
          (\<lambda>nango_response.
             let creds = make_credentials nango_response
             in if \<not> valid w creds then
                  (if expired w creds \<and> truthy (refresh_token creds)
                   then io_bind (remote (TokenRefresh creds) (refresh w creds))
                          (\<lambda>creds'. io_ret (Service creds'))
                   else io_raise (OtherException ''Invalid credentials and no refresh token available''))
                else io_ret (Service creds)))
       (\<lambda>error. io_raise error)"

section \<open>GoogleCalendarTools\<close>

subsection \<open>get_all_calendars\<close>

definition fields :: string where
  "fields = ''nextPageToken,items(id,summary,description,primary,accessRole,backgroundColor,foregroundColor,timeZone)''"

definition request_params :: "string option \<Rightarrow> (string \<times> string) list" where
  "request_params page_token =
     [(''fields'', fields)] @
     (case page_token of None \<Rightarrow> [] | Some t \<Rightarrow> if t = [] then [] else [(''pageToken'', t)])"

text \<open>
  The \<^verbatim>\<open>while True\<close> loop. Nothing bounds the number of pages, so the loop is a partial
  function: \<open>None\<close> is the run that never leaves the loop. \<open>k\<close> counts the requests made
  so far, \<open>log\<close> holds the remote calls made so far.
\<close>

partial_function (option) list_pages ::
  "world \<Rightarrow> service \<Rightarrow> nat \<Rightarrow> string option \<Rightarrow> json list \<Rightarrow> remote_call list \<Rightarrow> (json list) io option"
where
  "list_pages w service k page_token calendars log =
     (let log' = log @ [CalendarListList service (request_params page_token)]
      in case calendarList_list w k service (request_params page_token) of
           Inl error \<Rightarrow> Some (log', Inl error)
         | Inr calendar_list \<Rightarrow>
             (let page_calendars = (case cal_items calendar_list of None \<Rightarrow> [] | Some xs \<Rightarrow> xs);
                  calendars' = calendars @ page_calendars;
                  page_token' = nextPageToken calendar_list
              in if \<not> truthy page_token' then Some (log', Inr calendars')
                 else list_pages w service (Suc k) page_token' calendars' log'))"

text \<open>Both handlers of the client's \<^verbatim>\<open>get_all_calendars\<close> log and raise again.\<close>

definition GoogleCalendarTools_get_all_calendars ::
  "world \<Rightarrow> string \<Rightarrow> string \<Rightarrow> (json list) io option" where
  "GoogleCalendarTools_get_all_calendars w connection_id provider_config_key =
     (case authenticate_google_calendar w connection_id provider_config_key of
        (l, Inl error) \<Rightarrow> Some (l, Inl error)
      | (l, Inr service) \<Rightarrow> list_pages w service 0 None [] l)"

subsection \<open>get_calendar_events\<close>

definition events_params :: "string \<Rightarrow> string option \<Rightarrow> string option \<Rightarrow> int \<Rightarrow> dict" where
  "events_params calendar_id time_min time_max max_results =
     [(''calendarId'', JStr calendar_id),
      (''maxResults'', JInt max_results),
      (''singleEvents'', JBool True),
      (''orderBy'', JStr ''startTime'')] @
     (case time_min of None \<Rightarrow> [] | Some t \<Rightarrow> if t = [] then [] else [(''timeMin'', JStr t)]) @
     (case time_max of None \<Rightarrow> [] | Some t \<Rightarrow> if t = [] then [] else [(''timeMax'', JStr t)])"

text \<open>\<^verbatim>\<open>event.get(key)\<close> and \<^verbatim>\<open>event.get(key, default)\<close>.\<close>

definition get :: "dict \<Rightarrow> string \<Rightarrow> json" where
  "get d k = (case map_of d k of None \<Rightarrow> JNull | Some v \<Rightarrow> v)"

definition get_default :: "dict \<Rightarrow> string \<Rightarrow> json \<Rightarrow> json" where
  "get_default d k dflt = (case map_of d k of None \<Rightarrow> dflt | Some v \<Rightarrow> v)"

definition formatted_event :: "string \<Rightarrow> dict \<Rightarrow> json" where
  "formatted_event calendar_id event =
     JObj [(''id'', get event ''id''),
           (''summary'', get_default event ''summary'' (JStr ''No Title'')),
           (''description'', get_default event ''description'' (JStr [])),
           (''start'', get_default event ''start'' (JObj [])),
           (''end'', get_default event ''end'' (JObj [])),
           (''location'', get_default event ''location'' (JStr [])),
           (''status'', get_default event ''status'' (JStr [])),
           (''created'', get event ''created''),
           (''updated'', get event ''updated''),
           (''html_link'', get event ''htmlLink''),
           (''calendar_id'', JStr calendar_id)]"

definition events_error :: "string \<Rightarrow> fault \<Rightarrow> dict" where
  "events_error calendar_id error =
     (case error of
        HttpError st s \<Rightarrow>
          [(''success'', JBool False),
           (''message'', JStr (''HTTP error occurred: '' @ s)),
           (''error'', JStr (''http_error_'' @ (case st of Some n \<Rightarrow> show_nat n | None \<Rightarrow> ''unknown''))),
           (''calendar_id'', JStr calendar_id)]
      | _ \<Rightarrow>
          [(''success'', JBool False),
           (''message'', JStr (''Unexpected error occurred: '' @ str_of error)),
           (''error'', JStr ''unexpected_error''),
           (''calendar_id'', JStr calendar_id)])"

definition GoogleCalendarTools_get_calendar_events ::
  "world \<Rightarrow> string \<Rightarrow> string \<Rightarrow> string \<Rightarrow> string option \<Rightarrow> string option \<Rightarrow> int \<Rightarrow> dict io" where
  "GoogleCalendarTools_get_calendar_events w connection_id provider_config_key calendar_id
       time_min time_max max_results =
     try_except
       (io_bind (authenticate_google_calendar w connection_id provider_config_key)
          (\<lambda>service.
             let params = events_params calendar_id time_min time_max max_results
             in io_bind (remote (EventsList service params) (events_list w service params))
                  (\<lambda>events_result.
                     let events = (case ev_items events_result of None \<Rightarrow> [] | Some xs \<Rightarrow> xs);
                         formatted_events = map (formatted_event calendar_id) events
                     in io_ret
                          [(''success'', JBool True),
                           (''events'', JList formatted_events),
                           (''total_events'', JInt (int (length formatted_events))),
                           (''calendar_id'', JStr calendar_id),
                           (''message'', JStr (''Retrieved '' @ show_nat (length formatted_events) @
                                               '' events successfully''))])))
       (\<lambda>error. io_ret (events_error calendar_id error))"

subsection \<open>create_meet_event\<close>

definition meet_event_body ::
  "world \<Rightarrow> string \<Rightarrow> string \<Rightarrow> string \<Rightarrow> string \<Rightarrow> string list option \<Rightarrow> string \<Rightarrow> dict" where
  "meet_event_body w summary start_datetime end_datetime description attendees timezone =
     [(''summary'', JStr summary),
      (''description'', JStr description),
      (''start'', JObj [(''dateTime'', JStr start_datetime), (''timeZone'', JStr timezone)]),
      (''end'', JObj [(''dateTime'', JStr end_datetime), (''timeZone'', JStr timezone)])] @
     (case attendees of
        None \<Rightarrow> []
      | Some as \<Rightarrow> if as = [] then []
                  else [(''attendees'', JList (map (\<lambda>email. JObj [(''email'', JStr email)]) as))]) @
     [(''conferenceData'',
        JObj [(''createRequest'',
                JObj [(''requestId'', JStr (''meet-'' @ strftime_compact (now w))),
                      (''conferenceSolutionKey'', JObj [(''type'', JStr ''hangoutsMeet'')])])])]"

text \<open>
  The client's \<^verbatim>\<open>create_meet_event\<close> authenticates first, then checks the summary, then
  inserts; both handlers return \<^verbatim>\<open>None\<close>.
\<close>

definition GoogleCalendarTools_create_meet_event ::
  "world \<Rightarrow> string \<Rightarrow> string \<Rightarrow> string \<Rightarrow> string \<Rightarrow> string \<Rightarrow> string \<Rightarrow> string list option \<Rightarrow>
   string \<Rightarrow> string \<Rightarrow> (dict option) io" where
  "GoogleCalendarTools_create_meet_event w connection_id provider_config_key summary
       start_datetime end_datetime description attendees timezone calendar_id =
     try_except
       (io_bind (authenticate_google_calendar w connection_id provider_config_key)
          (\<lambda>service.
             if summary = [] then io_raise (ValueError ''Event summary (title) is required'')
             else
               (let event = meet_event_body w summary start_datetime end_datetime description
                              attendees timezone
                in io_bind (remote (EventsInsert service calendar_id event)
                              (events_insert w service calendar_id event))
                     (\<lambda>created_event. io_ret (Some created_event)))))
       (\<lambda>error. io_ret None)"

subsection \<open>cancel_calendar_event\<close>

definition cancel_error :: "string \<Rightarrow> fault \<Rightarrow> dict" where
  "cancel_error event_id error =
     (case error of
        HttpError st s \<Rightarrow>
          (if st = Some 404 then
             [(''success'', JBool False),
              (''message'', JStr (''Event not found: '' @ event_id)),
              (''error'', JStr ''event_not_found''),
              (''event_id'', JStr event_id)]
           else if st = Some 403 then
             [(''success'', JBool False),
              (''message'', JStr ''Insufficient permissions to cancel this event''),
              (''error'', JStr ''permission_denied''),
              (''event_id'', JStr event_id)]
           else
             [(''success'', JBool False),
              (''message'', JStr (''HTTP error occurred: '' @ s)),
              (''error'', JStr ''http_error''),
              (''event_id'', JStr event_id)])
      | _ \<Rightarrow>
          [(''success'', JBool False),
           (''message'', JStr (''Unexpected error occurred: '' @ str_of error)),
           (''error'', JStr ''unexpected_error''),
           (''event_id'', JStr event_id)])"

definition GoogleCalendarTools_cancel_calendar_event ::
  "world \<Rightarrow> string \<Rightarrow> string \<Rightarrow> string \<Rightarrow> string \<Rightarrow> dict io" where
  "GoogleCalendarTools_cancel_calendar_event w connection_id provider_config_key calendar_id event_id =
     try_except
       (io_bind (authenticate_google_calendar w connection_id provider_config_key)
          (\<lambda>service.
             io_bind (remote (EventsDelete service calendar_id event_id)
                        (events_delete w service calendar_id event_id))
               (\<lambda>_. io_ret
                       [(''success'', JBool True),
                        (''message'', JStr (''Event '' @ event_id @ '' successfully cancelled'')),
                        (''event_id'', JStr event_id),
                        (''calendar_id'', JStr calendar_id)])))
       (\<lambda>error. io_ret (cancel_error event_id error))"

section \<open>The tools\<close>

text \<open>
  A tool returns \<^verbatim>\<open>json.dumps(result, indent=2)\<close>; the model returns the object that is
  serialised. The tools read the two identifiers from the module's globals, here the
  parameters \<open>NANGO_CONNECTION_ID\<close> and \<open>NANGO_INTEGRATION_ID\<close>. Every tool body is inside
  \<^verbatim>\<open>try\<close> with one handler \<^verbatim>\<open>except Exception\<close>.
\<close>

definition tool_failure :: "string \<Rightarrow> fault \<Rightarrow> json io" where
  "tool_failure message e =
     io_ret (JObj [(''success'', JBool False),
                   (''error'', JStr (str_of e)),
                   (''message'', JStr message)])"

definition get_all_calendars :: "world \<Rightarrow> string \<Rightarrow> string \<Rightarrow> json io option" where
  "get_all_calendars w NANGO_CONNECTION_ID NANGO_INTEGRATION_ID =
     (case GoogleCalendarTools_get_all_calendars w NANGO_CONNECTION_ID NANGO_INTEGRATION_ID of
        None \<Rightarrow> None
      | Some m \<Rightarrow>
          Some (try_except
                  (io_bind m
                     (\<lambda>calendars.
                        io_ret (JObj [(''success'', JBool True),
                                      (''calendars'', JList calendars),
                                      (''total_calendars'', JInt (int (length calendars))),
                                      (''message'', JStr (''Retrieved '' @ show_nat (length calendars) @
                                                          '' calendars successfully''))])))
                  (tool_failure ''Failed to retrieve calendars'')))"

definition get_calendar_events ::
  "world \<Rightarrow> string \<Rightarrow> string \<Rightarrow> string \<Rightarrow> string option \<Rightarrow> string option \<Rightarrow> int \<Rightarrow> json io" where
  "get_calendar_events w NANGO_CONNECTION_ID NANGO_INTEGRATION_ID calendar_id time_min time_max max_results =
     try_except
       (io_bind (GoogleCalendarTools_get_calendar_events w NANGO_CONNECTION_ID NANGO_INTEGRATION_ID
                   calendar_id time_min time_max max_results)
          (\<lambda>result. io_ret (JObj result)))
       (tool_failure ''Failed to retrieve calendar events'')"

definition create_meet_event ::
  "world \<Rightarrow> string \<Rightarrow> string \<Rightarrow> string \<Rightarrow> string \<Rightarrow> string \<Rightarrow> string \<Rightarrow> string list option \<Rightarrow>
   string \<Rightarrow> string \<Rightarrow> json io" where
  "create_meet_event w NANGO_CONNECTION_ID NANGO_INTEGRATION_ID summary start_datetime end_datetime
       description attendees timezone calendar_id =
     try_except
       (io_bind (GoogleCalendarTools_create_meet_event w NANGO_CONNECTION_ID NANGO_INTEGRATION_ID
                   summary start_datetime end_datetime description attendees timezone calendar_id)
          (\<lambda>result.
             case result of
               None \<Rightarrow> io_ret (JObj [(''success'', JBool False),
                                     (''message'', JStr ''Failed to create event'')])
             | Some created \<Rightarrow>
                 if created = [] then
                   io_ret (JObj [(''success'', JBool False),
                                 (''message'', JStr ''Failed to create event'')])
                 else
                   io_ret (JObj [(''success'', JBool True),
                                 (''event'', JObj created),
                                 (''message'', JStr ''Event created successfully'')])))
       (tool_failure ''Failed to create calendar event'')"

definition cancel_calendar_event :: "world \<Rightarrow> string \<Rightarrow> string \<Rightarrow> string \<Rightarrow> string \<Rightarrow> json io" where
  "cancel_calendar_event w NANGO_CONNECTION_ID NANGO_INTEGRATION_ID calendar_id event_id =
     try_except
       (io_bind (GoogleCalendarTools_cancel_calendar_event w NANGO_CONNECTION_ID NANGO_INTEGRATION_ID
                   calendar_id event_id)
          (\<lambda>result. io_ret (JObj result)))
       (tool_failure ''Failed to cancel calendar event'')"

definition get_today_events :: "world \<Rightarrow> string \<Rightarrow> string \<Rightarrow> string \<Rightarrow> json io" where
  "get_today_events w NANGO_CONNECTION_ID NANGO_INTEGRATION_ID calendar_id =
     try_except
       (let today = now w;
            time_min = isoformat (today\<lparr>hour := 0, minute := 0, second := 0, microsecond := 0\<rparr>) @ ''Z'';
            time_max = isoformat (today\<lparr>hour := 23, minute := 59, second := 59,
                                        microsecond := 999999\<rparr>) @ ''Z''
        in io_bind (GoogleCalendarTools_get_calendar_events w NANGO_CONNECTION_ID NANGO_INTEGRATION_ID
                      calendar_id (Some time_min) (Some time_max) 50)
             (\<lambda>result. io_ret (JObj result)))
       (tool_failure ''Failed to retrieve today's events'')"

definition get_upcoming_events :: "world \<Rightarrow> string \<Rightarrow> string \<Rightarrow> int \<Rightarrow> string \<Rightarrow> json io" where
  "get_upcoming_events w NANGO_CONNECTION_ID NANGO_INTEGRATION_ID days_ahead calendar_id =
     try_except
       (io_bind ([], add_days w (now w) days_ahead)
          (\<lambda>future.
             let time_min = isoformat (now w) @ ''Z'';
                 time_max = isoformat future @ ''Z''
             in io_bind (GoogleCalendarTools_get_calendar_events w NANGO_CONNECTION_ID
                           NANGO_INTEGRATION_ID calendar_id (Some time_min) (Some time_max) 50)
                  (\<lambda>result. io_ret (JObj result))))
       (tool_failure ''Failed to retrieve upcoming events'')"

section \<open>The process: start, then serve tool calls\<close>

datatype tool_call =
    GetAllCalendars
  | GetCalendarEvents string "string option" "string option" int
  | CreateMeetEvent string string string string "string list option" string string
  | CancelCalendarEvent string string
  | GetTodayEvents string
  | GetUpcomingEvents int string

fun invoke :: "world \<Rightarrow> string \<Rightarrow> string \<Rightarrow> tool_call \<Rightarrow> json io option" where
  "invoke w c i GetAllCalendars = get_all_calendars w c i"
| "invoke w c i (GetCalendarEvents calendar_id time_min time_max max_results) =
     Some (get_calendar_events w c i calendar_id time_min time_max max_results)"
| "invoke w c i (CreateMeetEvent summary start_datetime end_datetime description attendees timezone calendar_id) =
     Some (create_meet_event w c i summary start_datetime end_datetime description attendees timezone calendar_id)"
| "invoke w c i (CancelCalendarEvent calendar_id event_id) =
     Some (cancel_calendar_event w c i calendar_id event_id)"
| "invoke w c i (GetTodayEvents calendar_id) = Some (get_today_events w c i calendar_id)"
| "invoke w c i (GetUpcomingEvents days_ahead calendar_id) =
     Some (get_upcoming_events w c i days_ahead calendar_id)"

text \<open>
  The module checks its two identifiers when it is loaded; a fault there ends the process
  before the server exists. Otherwise each call is served with the identifiers read then.
\<close>

definition serve :: "world \<Rightarrow> tool_call list \<Rightarrow> fault + (json io option) list" where
  "serve w calls =
     (case startup w of
        Inl e \<Rightarrow> Inl e
      | Inr (c, i) \<Rightarrow> Inr (map (invoke w c i) calls))"

section \<open>Observations on results\<close>

text \<open>The calls that reach the calendar provider, as opposed to the vault and the token endpoint.\<close>

fun calendar_call :: "remote_call \<Rightarrow> bool" where
  "calendar_call (VaultGet r) = False"
| "calendar_call (TokenRefresh c) = False"
| "calendar_call (CalendarListList s p) = True"
| "calendar_call (EventsList s p) = True"
| "calendar_call (EventsInsert s c b) = True"
| "calendar_call (EventsDelete s c e) = True"

text \<open>A member of a JSON object; the two shapes of a failure envelope.\<close>

fun field :: "json \<Rightarrow> string \<Rightarrow> json option" where
  "field (JObj d) k = map_of d k"
| "field j k = None"

definition uniform_failure :: "json \<Rightarrow> bool" where
  "uniform_failure j =
     (field j ''success'' = Some (JBool False) \<and> field j ''error'' \<noteq> None \<and> field j ''message'' \<noteq> None)"

definition bare_failure :: "json \<Rightarrow> bool" where
  "bare_failure j =
     (field j ''success'' = Some (JBool False) \<and> field j ''error'' = None \<and> field j ''message'' \<noteq> None)"

fun is_create :: "tool_call \<Rightarrow> bool" where
  "is_create (CreateMeetEvent summary start_datetime end_datetime description attendees timezone calendar_id) = True"
| "is_create call = False"

text \<open>The items of a page, with the source's default \<^verbatim>\<open>[]\<close> for a missing member.\<close>

definition page_items :: "calendar_page \<Rightarrow> json list" where
  "page_items calendar_list = (case cal_items calendar_list of None \<Rightarrow> [] | Some xs \<Rightarrow> xs)"

definition events_of :: "events_page \<Rightarrow> dict list" where
  "events_of events_result = (case ev_items events_result of None \<Rightarrow> [] | Some xs \<Rightarrow> xs)"

text \<open>
  The requests of a paginated fetch, written out: the first asks for the selected fields
  only, a later one also carries the continuation token of the page before.
\<close>

definition first_request :: "(string \<times> string) list" where
  "first_request =
     [(''fields'', ''nextPageToken,items(id,summary,description,primary,accessRole,backgroundColor,foregroundColor,timeZone)'')]"

definition next_request :: "string \<Rightarrow> (string \<times> string) list" where
  "next_request continuation =
     [(''fields'', ''nextPageToken,items(id,summary,description,primary,accessRole,backgroundColor,foregroundColor,timeZone)''),
      (''pageToken'', continuation)]"

text \<open>
  \<open>serves w service k request pages\<close>: asked \<open>request\<close> as request number \<open>k\<close>, and
  then asked for each further page with the continuation token of the page before, the
  provider answers with the pages of \<open>pages\<close> one after the other; every page but the last
  carries a continuation token and the last carries none.
\<close>

fun serves :: "world \<Rightarrow> service \<Rightarrow> nat \<Rightarrow> (string \<times> string) list \<Rightarrow> calendar_page list \<Rightarrow> bool" where
  "serves w service k request [] = False"
| "serves w service k request [p] =
     (calendarList_list w k service request = Inr p \<and> \<not> truthy (nextPageToken p))"
| "serves w service k request (p # q # ps) =
     (calendarList_list w k service request = Inr p \<and>
      (case nextPageToken p of
         None \<Rightarrow> False
       | Some continuation \<Rightarrow>
           continuation \<noteq> [] \<and> serves w service (Suc k) (next_request continuation) (q # ps)))"

text \<open>
  The requests that fetch \<open>pages\<close>, starting with \<open>request\<close>: one for each page, each
  later one carrying the continuation token of the page before.
\<close>

fun page_requests :: "service \<Rightarrow> (string \<times> string) list \<Rightarrow> calendar_page list \<Rightarrow> remote_call list" where
  "page_requests service request [] = []"
| "page_requests service request (p # ps) =
     CalendarListList service request #
     (case nextPageToken p of
        None \<Rightarrow> []
      | Some continuation \<Rightarrow> page_requests service (next_request continuation) ps)"



section \<open>Concrete worlds\<close>

definition demo_env :: "string \<Rightarrow> string option" where
  "demo_env = [''NANGO_CONNECTION_ID'' \<mapsto> ''conn-1'',
               ''NANGO_INTEGRATION_ID'' \<mapsto> ''google-calendar'',
               ''NANGO_NANGO_BASE_URL'' \<mapsto> ''https://vault.example'',
               ''NANGO_NANGO_SECRET_KEY'' \<mapsto> ''s3cret'']"

definition demo_request :: vault_request where
  "demo_request =
     \<lparr> req_url = ''https://vault.example/connection/conn-1'',
       req_params = [(''provider_config_key'', ''google-calendar''), (''refresh_token'', ''true'')],
       req_headers = [(''Authorization'', ''Bearer s3cret'')] \<rparr>"

definition demo_credentials :: credentials where
  "demo_credentials =
     \<lparr> token = Some ''ya29.token'',
       refresh_token = Some ''1//refresh'',
       token_uri = ''https://oauth2.googleapis.com/token'',
       client_id = Some ''client'',
       client_secret = Some ''shh'',
       scopes = [''https://www.googleapis.com/auth/calendar''],
       expiry = None \<rparr>"

definition demo_world :: world where
  "demo_world =
     \<lparr> environ = demo_env,
       now = \<lparr> year = 2024, month = 3, day = 15, hour = 10, minute = 30, second = 45,
               microsecond = 123456 \<rparr>,
       add_days = (\<lambda>d n. Inr (d\<lparr>day := day d + nat n\<rparr>)),
       vault_get = (\<lambda>r. Inr (Some [''access_token'' \<mapsto> ''ya29.token'',
                                    ''refresh_token'' \<mapsto> ''1//refresh'',
                                    ''client_id'' \<mapsto> ''client'',
                                    ''client_secret'' \<mapsto> ''shh''])),
       expiry_passed = (\<lambda>t. False),
       refresh = (\<lambda>c. Inr c),
       calendarList_list = (\<lambda>k s p. Inr \<lparr> cal_items = Some [JStr ''primary''], nextPageToken = None \<rparr>),
       events_list = (\<lambda>s p. Inr \<lparr> ev_items = Some [] \<rparr>),
       events_insert = (\<lambda>s c b. Inr b),
       events_delete = (\<lambda>s c e. Inr ()) \<rparr>"

definition world_vault_down :: world where
  "world_vault_down =
     demo_world\<lparr> vault_get := (\<lambda>r. Inl (OtherException ''503 Server Error: Service Unavailable'')) \<rparr>"

definition world_no_vault_config :: world where
  "world_no_vault_config =
     demo_world\<lparr> environ := [''NANGO_CONNECTION_ID'' \<mapsto> ''conn-1'',
                              ''NANGO_INTEGRATION_ID'' \<mapsto> ''google-calendar''] \<rparr>"

definition world_no_connection_id :: world where
  "world_no_connection_id =
     demo_world\<lparr> environ := [''NANGO_INTEGRATION_ID'' \<mapsto> ''google-calendar'',
                              ''NANGO_NANGO_BASE_URL'' \<mapsto> ''https://vault.example'',
                              ''NANGO_NANGO_SECRET_KEY'' \<mapsto> ''s3cret''] \<rparr>"

definition world_delete_404 :: world where
  "world_delete_404 =
     demo_world\<lparr> events_delete := (\<lambda>s c e. Inl (HttpError (Some 404) ''HttpError 404 Not Found'')) \<rparr>"

definition world_events_500 :: world where
  "world_events_500 =
     demo_world\<lparr> events_list := (\<lambda>s p. Inl (HttpError (Some 500) ''HttpError 500 Backend Error'')) \<rparr>"

definition world_list_500 :: world where
  "world_list_500 =
     demo_world\<lparr> calendarList_list := (\<lambda>k s p. Inl (HttpError (Some 500) ''HttpError 500 Backend Error'')) \<rparr>"

text \<open>
  Two vaults that hand out an access token whose lifetime ended an hour before the clock's
  reading, the first with a refresh token and the second without.
\<close>

definition world_stale_token :: world where
  "world_stale_token =
     demo_world\<lparr> expiry_passed := (\<lambda>t. True),
                  vault_get := (\<lambda>r. Inr (Some [''access_token'' \<mapsto> ''ya29.stale'',
                                               ''refresh_token'' \<mapsto> ''1//refresh'',
                                               ''client_id'' \<mapsto> ''client'',
                                               ''client_secret'' \<mapsto> ''shh'',
                                               ''expires_at'' \<mapsto> ''2024-03-15T09:30:45.000Z''])) \<rparr>"

definition world_stale_no_refresh :: world where
  "world_stale_no_refresh =
     demo_world\<lparr> expiry_passed := (\<lambda>t. True),
                  vault_get := (\<lambda>r. Inr (Some [''access_token'' \<mapsto> ''ya29.stale'',
                                               ''expires_at'' \<mapsto> ''2024-03-15T09:30:45.000Z''])) \<rparr>"

definition stale_credentials :: credentials where
  "stale_credentials = demo_credentials\<lparr> token := Some ''ya29.stale'' \<rparr>"

definition stale_credentials_no_refresh :: credentials where
  "stale_credentials_no_refresh =
     \<lparr> token = Some ''ya29.stale'',
       refresh_token = None,
       token_uri = ''https://oauth2.googleapis.com/token'',
       client_id = None,
       client_secret = None,
       scopes = [''https://www.googleapis.com/auth/calendar''],
       expiry = None \<rparr>"

text \<open>A provider with three pages that answers by the continuation token it is sent.\<close>

definition world_three_pages :: world where
  "world_three_pages =
     demo_world\<lparr> calendarList_list :=
       (\<lambda>k s request.
          case map_of request ''pageToken'' of
            None \<Rightarrow> Inr \<lparr> cal_items = Some [JStr ''a''], nextPageToken = Some ''t1'' \<rparr>
          | Some continuation \<Rightarrow>
              if continuation = ''t1''
              then Inr \<lparr> cal_items = Some [JStr ''b'', JStr ''c''], nextPageToken = Some ''t2'' \<rparr>
              else if continuation = ''t2''
              then Inr \<lparr> cal_items = None, nextPageToken = None \<rparr>
              else Inl (HttpError (Some 400) ''HttpError 400 Invalid page token'')) \<rparr>"

definition world_two_events :: world where
  "world_two_events =
     demo_world\<lparr> events_list :=
       (\<lambda>s p. Inr \<lparr> ev_items = Some [[(''id'', JStr ''e1''), (''summary'', JStr ''Standup'')],
                                       [(''id'', JStr ''e2'')]] \<rparr>) \<rparr>"

section \<open>Basic facts about the operations\<close>

lemma io_bind_Inl: "io_bind (l, Inl e) f = (l, Inl e)"
  by (simp add: io_bind_def)

lemma io_bind_Inr: "io_bind (l, Inr v) f = (l @ fst (f v), snd (f v))"
  by (simp add: io_bind_def split: prod.splits)

lemma try_except_Inl: "try_except (l, Inl e) h = (l @ fst (h e), snd (h e))"
  by (simp add: try_except_def split: prod.splits)

lemma try_except_Inr: "try_except (l, Inr v) h = (l, Inr v)"
  by (simp add: try_except_def)

lemmas io_simps = io_bind_Inl io_bind_Inr try_except_Inl try_except_Inr io_ret_def io_raise_def
  remote_def

lemma auth_log_no_calendar_call:
  "filter calendar_call (fst (authenticate_google_calendar w c i)) = []"
  by (auto simp: authenticate_google_calendar_def get_connection_credentials_def try_except_def
        io_bind_def io_raise_def io_ret_def remote_def Let_def
      split: option.splits sum.splits prod.splits if_splits)

lemma create_auth_fails:
  "authenticate_google_calendar w c i = (l, Inl e) \<Longrightarrow>
   GoogleCalendarTools_create_meet_event w c i summary s e' d a tz cal = (l, Inr None)"
  by (simp add: GoogleCalendarTools_create_meet_event_def io_simps)

lemma create_auth_ok:
  "authenticate_google_calendar w c i = (l, Inr service) \<Longrightarrow>
   GoogleCalendarTools_create_meet_event w c i summary s e' d a tz cal =
     (if summary = [] then (l, Inr None)
      else (l @ [EventsInsert service cal (meet_event_body w summary s e' d a tz)],
            case events_insert w service cal (meet_event_body w summary s e' d a tz) of
              Inl error \<Rightarrow> Inr None
            | Inr created_event \<Rightarrow> Inr (Some created_event)))"
  by (simp add: GoogleCalendarTools_create_meet_event_def io_simps Let_def split: sum.splits)

lemma events_auth_fails:
  "authenticate_google_calendar w c i = (l, Inl e) \<Longrightarrow>
   GoogleCalendarTools_get_calendar_events w c i cal tmin tmax mx = (l, Inr (events_error cal e))"
  by (simp add: GoogleCalendarTools_get_calendar_events_def io_simps)

lemma events_auth_ok:
  "authenticate_google_calendar w c i = (l, Inr service) \<Longrightarrow>
   GoogleCalendarTools_get_calendar_events w c i cal tmin tmax mx =
     (l @ [EventsList service (events_params cal tmin tmax mx)],
      case events_list w service (events_params cal tmin tmax mx) of
        Inl error \<Rightarrow> Inr (events_error cal error)
      | Inr events_result \<Rightarrow>
          Inr [(''success'', JBool True),
               (''events'', JList (map (formatted_event cal) (events_of events_result))),
               (''total_events'', JInt (int (length (events_of events_result)))),
               (''calendar_id'', JStr cal),
               (''message'', JStr (''Retrieved '' @ show_nat (length (events_of events_result)) @
                                   '' events successfully''))])"
  by (simp add: GoogleCalendarTools_get_calendar_events_def io_simps Let_def events_of_def
      split: sum.splits)

lemma cancel_auth_fails:
  "authenticate_google_calendar w c i = (l, Inl e) \<Longrightarrow>
   GoogleCalendarTools_cancel_calendar_event w c i cal ev = (l, Inr (cancel_error ev e))"
  by (simp add: GoogleCalendarTools_cancel_calendar_event_def io_simps)

lemma cancel_auth_ok:
  "authenticate_google_calendar w c i = (l, Inr service) \<Longrightarrow>
   GoogleCalendarTools_cancel_calendar_event w c i cal ev =
     (l @ [EventsDelete service cal ev],
      case events_delete w service cal ev of
        Inl error \<Rightarrow> Inr (cancel_error ev error)
      | Inr u \<Rightarrow>
          Inr [(''success'', JBool True),
               (''message'', JStr (''Event '' @ ev @ '' successfully cancelled'')),
               (''event_id'', JStr ev),
               (''calendar_id'', JStr cal)])"
  by (simp add: GoogleCalendarTools_cancel_calendar_event_def io_simps split: sum.splits)

lemma auth_cases:
  obtains (fails) l e where "authenticate_google_calendar w c i = (l, Inl e)"
        | (ok) l service where "authenticate_google_calendar w c i = (l, Inr service)"
  by (cases "authenticate_google_calendar w c i") (metis sum.exhaust)

lemma events_error_fields:
  "map_of (events_error cal e) ''success'' = Some (JBool False)"
  "map_of (events_error cal e) ''calendar_id'' = Some (JStr cal)"
  "map_of (events_error cal e) ''message'' \<noteq> None"
  "map_of (events_error cal e) ''error'' =
     Some (JStr (case e of HttpError (Some n) s \<Rightarrow> ''http_error_'' @ show_nat n
                         | HttpError None s \<Rightarrow> ''http_error_unknown''
                         | _ \<Rightarrow> ''unexpected_error''))"
  by (simp_all add: events_error_def split: fault.splits option.splits)

lemma cancel_error_fields:
  "map_of (cancel_error ev e) ''success'' = Some (JBool False)"
  "map_of (cancel_error ev e) ''event_id'' = Some (JStr ev)"
  "map_of (cancel_error ev e) ''calendar_id'' = None"
  "map_of (cancel_error ev e) ''message'' \<noteq> None"
  "map_of (cancel_error ev e) ''error'' \<noteq> None"
  by (simp_all add: cancel_error_def split: fault.splits)

lemma cancel_error_kind:
  "map_of (cancel_error ev (HttpError st s)) ''error'' =
     Some (JStr (if st = Some 404 then ''event_not_found''
                 else if st = Some 403 then ''permission_denied'' else ''http_error''))"
  by (simp add: cancel_error_def)

lemmas eval_defs = authenticate_google_calendar_def get_connection_credentials_def
  make_credentials_def valid_def expired_def truthy_def SCOPES_def try_except_def io_bind_def
  io_raise_def
  io_ret_def remote_def Let_def demo_env_def demo_request_def demo_credentials_def

lemma demo_auth:
  "authenticate_google_calendar demo_world ''conn-1'' ''google-calendar'' =
     ([VaultGet demo_request], Inr (Service demo_credentials))"
  by (simp add: eval_defs demo_world_def)

lemma vault_down_auth:
  "authenticate_google_calendar world_vault_down ''conn-1'' ''google-calendar'' =
     ([VaultGet demo_request], Inl (OtherException ''503 Server Error: Service Unavailable''))"
  by (simp add: eval_defs demo_world_def world_vault_down_def)

lemma delete_404_auth:
  "authenticate_google_calendar world_delete_404 ''conn-1'' ''google-calendar'' =
     ([VaultGet demo_request], Inr (Service demo_credentials))"
  by (simp add: eval_defs demo_world_def world_delete_404_def)

lemma events_500_auth:
  "authenticate_google_calendar world_events_500 ''conn-1'' ''google-calendar'' =
     ([VaultGet demo_request], Inr (Service demo_credentials))"
  by (simp add: eval_defs demo_world_def world_events_500_def)

lemma two_events_auth:
  "authenticate_google_calendar world_two_events ''conn-1'' ''google-calendar'' =
     ([VaultGet demo_request], Inr (Service demo_credentials))"
  by (simp add: eval_defs demo_world_def world_two_events_def)

lemma show_nat_500: "show_nat 500 = ''500''"
  by (simp add: show_nat.simps [of 500] show_nat.simps [of 50] show_nat.simps [of 5] digit_def)








lemma events_total:
  "\<exists>l d. GoogleCalendarTools_get_calendar_events w c i cal tmin tmax mx = (l, Inr d)"
  by (cases rule: auth_cases [of w c i])
     (auto simp: events_auth_fails events_auth_ok split: sum.splits)

lemma wrap_events:
  "try_except
     (io_bind (GoogleCalendarTools_get_calendar_events w c i cal tmin tmax mx)
        (\<lambda>result. io_ret (JObj result))) h =
   (fst (GoogleCalendarTools_get_calendar_events w c i cal tmin tmax mx),
    map_sum id JObj (snd (GoogleCalendarTools_get_calendar_events w c i cal tmin tmax mx)))"
  using events_total [of w c i cal tmin tmax mx] by (auto simp: io_simps)


lemma startup_fails_iff:
  "(\<exists>e. startup w = Inl e) \<longleftrightarrow>
     \<not> truthy (environ w ''NANGO_CONNECTION_ID'') \<or> \<not> truthy (environ w ''NANGO_INTEGRATION_ID'')"
  by (auto simp: startup_def truthy_def Let_def split: option.splits)

lemma vault_config_missing:
  "\<not> truthy (environ w ''NANGO_NANGO_BASE_URL'') \<or> \<not> truthy (environ w ''NANGO_NANGO_SECRET_KEY'') \<Longrightarrow>
   get_connection_credentials w c i =
     ([], Inl (ValueError ''NANGO_NANGO_BASE_URL and NANGO_NANGO_SECRET_KEY must be set''))"
  by (auto simp: get_connection_credentials_def truthy_def Let_def io_raise_def split: option.splits)

lemma auth_propagates:
  "get_connection_credentials w c i = (l, Inl e) \<Longrightarrow>
   authenticate_google_calendar w c i = (l, Inl e)"
  by (simp add: authenticate_google_calendar_def io_simps)

lemma no_vault_config_auth:
  "authenticate_google_calendar world_no_vault_config ''conn-1'' ''google-calendar'' =
     ([], Inl (ValueError ''NANGO_NANGO_BASE_URL and NANGO_NANGO_SECRET_KEY must be set''))"
  by (simp add: eval_defs world_no_vault_config_def demo_world_def)

lemma never_expired: "expired w (make_credentials nango_response) = False"
  by (simp add: expired_def make_credentials_def Let_def)

lemma authenticate_result:
  "get_connection_credentials w c i = (l, Inr nango_response) \<Longrightarrow>
   authenticate_google_calendar w c i =
     (if token (make_credentials nango_response) = None
      then (l, Inl (OtherException ''Invalid credentials and no refresh token available''))
      else (l, Inr (Service (make_credentials nango_response))))"
  by (simp add: authenticate_google_calendar_def valid_def never_expired io_simps Let_def)

lemma all_calendars_auth_fails:
  "authenticate_google_calendar w c i = (l, Inl e) \<Longrightarrow>
   GoogleCalendarTools_get_all_calendars w c i = Some (l, Inl e)"
  by (simp add: GoogleCalendarTools_get_all_calendars_def)

lemma list_pages_last:
  "calendarList_list w k service (request_params page_token) = Inr p \<Longrightarrow>
   \<not> truthy (nextPageToken p) \<Longrightarrow>
   list_pages w service k page_token calendars log =
     Some (log @ [CalendarListList service (request_params page_token)],
           Inr (calendars @ page_items p))"
  by (subst list_pages.simps) (simp add: Let_def page_items_def)

lemma list_pages_more:
  "calendarList_list w k service (request_params page_token) = Inr p \<Longrightarrow>
   truthy (nextPageToken p) \<Longrightarrow>
   list_pages w service k page_token calendars log =
     list_pages w service (Suc k) (nextPageToken p) (calendars @ page_items p)
       (log @ [CalendarListList service (request_params page_token)])"
  by (subst list_pages.simps) (simp add: Let_def page_items_def)

lemma list_pages_fault:
  "calendarList_list w k service (request_params page_token) = Inl e \<Longrightarrow>
   list_pages w service k page_token calendars log =
     Some (log @ [CalendarListList service (request_params page_token)], Inl e)"
  by (subst list_pages.simps) (simp add: Let_def)

lemma request_params_None: "request_params None = first_request"
  by (simp add: request_params_def first_request_def fields_def)

lemma request_params_Some: "t \<noteq> [] \<Longrightarrow> request_params (Some t) = next_request t"
  by (simp add: request_params_def next_request_def fields_def)

lemma list_pages_serves:
  "serves w service k (request_params page_token) pages \<Longrightarrow>
   list_pages w service k page_token calendars log =
     Some (log @ page_requests service (request_params page_token) pages,
           Inr (calendars @ concat (map page_items pages)))"
proof (induction pages arbitrary: k page_token calendars log)
  case Nil
  then show ?case by simp
next
  case (Cons p ps)
  show ?case
  proof (cases ps)
    case Nil
    with Cons.prems show ?thesis
      by (simp add: list_pages_last split: option.splits)
  next
    case (Cons q qs)
    with Cons.prems obtain t where
      here: "calendarList_list w k service (request_params page_token) = Inr p"
      and tok: "nextPageToken p = Some t" and ne: "t \<noteq> []"
      and rest: "serves w service (Suc k) (next_request t) ps"
      by (auto split: option.splits)
    from tok ne have tr: "truthy (nextPageToken p)" by (simp add: truthy_def)
    from rest ne have rest': "serves w service (Suc k) (request_params (Some t)) ps"
      by (simp add: request_params_Some)
    show ?thesis
      unfolding list_pages_more [OF here tr] tok Cons.IH [OF rest']
      by (simp add: tok request_params_Some [OF ne])
  qed
qed

lemma page_requests_length:
  "serves w service k request pages \<Longrightarrow> length (page_requests service request pages) = length pages"
  by (induction w service k request pages rule: serves.induct) (auto split: option.splits)

lemma three_pages_auth:
  "authenticate_google_calendar world_three_pages ''conn-1'' ''google-calendar'' =
     ([VaultGet demo_request], Inr (Service demo_credentials))"
  by (simp add: eval_defs demo_world_def world_three_pages_def)

lemma list_pages_returns_aux:
  assumes "list_pages w service k page_token calendars log = Some y"
  shows "\<forall>log' result. y = (log', Inr result) \<longrightarrow>
     (\<exists>pages. serves w service k (request_params page_token) pages \<and>
              log' = log @ page_requests service (request_params page_token) pages \<and>
              result = calendars @ concat (map page_items pages))"
proof (rule list_pages.raw_induct
    [where P = "\<lambda>w service k page_token calendars log y.
       \<forall>log' result. y = (log', Inr result) \<longrightarrow>
         (\<exists>pages. serves w service k (request_params page_token) pages \<and>
                  log' = log @ page_requests service (request_params page_token) pages \<and>
                  result = calendars @ concat (map page_items pages))", OF _ assms], goal_cases)
  case (1 lp w service k page_token calendars log y)
  show ?case
  proof (intro allI impI)
    fix log' result
    assume y: "y = (log', Inr result)"
    show "\<exists>pages. serves w service k (request_params page_token) pages \<and>
              log' = log @ page_requests service (request_params page_token) pages \<and>
              result = calendars @ concat (map page_items pages)"
    proof (cases "calendarList_list w k service (request_params page_token)")
      case (Inl e)
      with 1(2) y show ?thesis by (simp add: Let_def)
    next
      case (Inr p)
      show ?thesis
      proof (cases "truthy (nextPageToken p)")
        case False
        with Inr 1(2) y have "serves w service k (request_params page_token) [p]"
          and "log' = log @ page_requests service (request_params page_token) [p]"
          and "result = calendars @ concat (map page_items [p])"
          by (auto simp: Let_def page_items_def split: option.splits)
        then show ?thesis by blast
      next
        case True
        then obtain t where tok: "nextPageToken p = Some t" and ne: "t \<noteq> []"
          by (auto simp: truthy_def split: option.splits)
        from True Inr 1(2) y have call: "lp w service (Suc k) (nextPageToken p)
            (calendars @ page_items p)
            (log @ [CalendarListList service (request_params page_token)]) = Some (log', Inr result)"
          by (simp add: Let_def page_items_def)
        from 1(1) [OF call] obtain pages where
          s: "serves w service (Suc k) (request_params (nextPageToken p)) pages"
          and l: "log' = (log @ [CalendarListList service (request_params page_token)]) @
                         page_requests service (request_params (nextPageToken p)) pages"
          and r: "result = (calendars @ page_items p) @ concat (map page_items pages)"
          by blast
        from s obtain q ps where qps: "pages = q # ps" by (cases pages) auto
        from s Inr tok ne have "serves w service k (request_params page_token) (p # pages)"
          unfolding qps by (simp add: request_params_Some)
        moreover from l tok ne
        have "log' = log @ page_requests service (request_params page_token) (p # pages)"
          by (simp add: request_params_Some)
        moreover from r have "result = calendars @ concat (map page_items (p # pages))" by simp
        ultimately show ?thesis by blast
      qed
    qed
  qed
qed

lemma list_pages_returns:
  "list_pages w service k page_token calendars log = Some (log', Inr result) \<Longrightarrow>
   \<exists>pages. serves w service k (request_params page_token) pages \<and>
           log' = log @ page_requests service (request_params page_token) pages \<and>
           result = calendars @ concat (map page_items pages)"
  using list_pages_returns_aux by blast

lemma events_shape:
  "\<exists>l d. GoogleCalendarTools_get_calendar_events w c i cal tmin tmax mx = (l, Inr d) \<and>
          (map_of d ''success'' = Some (JBool True) \<or> uniform_failure (JObj d)) \<and>
          (\<forall>l0 e. authenticate_google_calendar w c i = (l0, Inl e) \<longrightarrow> uniform_failure (JObj d))"
proof (cases rule: auth_cases [of w c i])
  case (fails l e)
  then show ?thesis
    by (simp add: events_auth_fails uniform_failure_def events_error_fields del: not_None_eq)
next
  case (ok l service)
  then show ?thesis
    by (cases "events_list w service (events_params cal tmin tmax mx)")
       (simp_all add: events_auth_ok uniform_failure_def events_error_fields del: not_None_eq)
qed

lemma cancel_shape:
  "\<exists>l d. GoogleCalendarTools_cancel_calendar_event w c i cal ev = (l, Inr d) \<and>
          (map_of d ''success'' = Some (JBool True) \<or> uniform_failure (JObj d)) \<and>
          (\<forall>l0 e. authenticate_google_calendar w c i = (l0, Inl e) \<longrightarrow> uniform_failure (JObj d))"
proof (cases rule: auth_cases [of w c i])
  case (fails l e)
  then show ?thesis
    by (simp add: cancel_auth_fails uniform_failure_def cancel_error_fields del: not_None_eq)
next
  case (ok l service)
  then show ?thesis
    by (cases "events_delete w service cal ev")
       (simp_all add: cancel_auth_ok uniform_failure_def cancel_error_fields del: not_None_eq)
qed

lemma tool_events_shape:
  "\<exists>l j. get_calendar_events w c i cal tmin tmax mx = (l, Inr j) \<and>
          (field j ''success'' = Some (JBool True) \<or> uniform_failure j) \<and>
          (\<forall>l0 e. authenticate_google_calendar w c i = (l0, Inl e) \<longrightarrow> uniform_failure j)"
  using events_shape [of w c i cal tmin tmax mx]
  by (auto simp: get_calendar_events_def wrap_events)

lemma tool_today_shape:
  "\<exists>l j. get_today_events w c i cal = (l, Inr j) \<and>
          (field j ''success'' = Some (JBool True) \<or> uniform_failure j) \<and>
          (\<forall>l0 e. authenticate_google_calendar w c i = (l0, Inl e) \<longrightarrow> uniform_failure j)"
proof -
  let ?tmin = "Some (isoformat (now w\<lparr>hour := 0, minute := 0, second := 0, microsecond := 0\<rparr>) @ ''Z'')"
  let ?tmax = "Some (isoformat (now w\<lparr>hour := 23, minute := 59, second := 59,
                                       microsecond := 999999\<rparr>) @ ''Z'')"
  from events_shape [of w c i cal ?tmin ?tmax 50] show ?thesis
    by (auto simp: get_today_events_def Let_def wrap_events)
qed

lemma tool_upcoming_shape:
  "\<exists>l j. get_upcoming_events w c i days cal = (l, Inr j) \<and>
          (field j ''success'' = Some (JBool True) \<or> uniform_failure j) \<and>
          (\<forall>l0 e. authenticate_google_calendar w c i = (l0, Inl e) \<longrightarrow> uniform_failure j)"
proof (cases "add_days w (now w) days")
  case (Inl e)
  then show ?thesis
    by (simp add: get_upcoming_events_def io_simps tool_failure_def uniform_failure_def)
next
  case (Inr future)
  let ?tmin = "Some (isoformat (now w) @ ''Z'')"
  let ?tmax = "Some (isoformat future @ ''Z'')"
  obtain l d where r: "GoogleCalendarTools_get_calendar_events w c i cal ?tmin ?tmax 50 = (l, Inr d)"
    and s: "map_of d ''success'' = Some (JBool True) \<or> uniform_failure (JObj d)"
    and f: "\<forall>l0 e. authenticate_google_calendar w c i = (l0, Inl e) \<longrightarrow> uniform_failure (JObj d)"
    using events_shape [of w c i cal ?tmin ?tmax 50] by blast
  have "get_upcoming_events w c i days cal = (l, Inr (JObj d))"
    by (simp add: get_upcoming_events_def Inr io_simps Let_def r)
  with s f show ?thesis by auto
qed

lemma tool_cancel_shape:
  "\<exists>l j. cancel_calendar_event w c i cal ev = (l, Inr j) \<and>
          (field j ''success'' = Some (JBool True) \<or> uniform_failure j) \<and>
          (\<forall>l0 e. authenticate_google_calendar w c i = (l0, Inl e) \<longrightarrow> uniform_failure j)"
  using cancel_shape [of w c i cal ev]
  by (auto simp: cancel_calendar_event_def io_simps)

lemma create_total:
  "\<exists>l r. GoogleCalendarTools_create_meet_event w c i summary s e' d a tz cal = (l, Inr r) \<and>
          (\<forall>l0 e. authenticate_google_calendar w c i = (l0, Inl e) \<longrightarrow> r = None)"
  by (cases rule: auth_cases [of w c i])
     (auto simp: create_auth_fails create_auth_ok split: sum.splits)

lemma tool_create_shape:
  "\<exists>l j. create_meet_event w c i summary s e' d a tz cal = (l, Inr j) \<and>
          (field j ''success'' = Some (JBool True) \<or> bare_failure j) \<and>
          (\<forall>l0 e. authenticate_google_calendar w c i = (l0, Inl e) \<longrightarrow> bare_failure j)"
proof -
  obtain l r where r: "GoogleCalendarTools_create_meet_event w c i summary s e' d a tz cal = (l, Inr r)"
    and f: "\<forall>l0 e. authenticate_google_calendar w c i = (l0, Inl e) \<longrightarrow> r = None"
    using create_total by blast
  show ?thesis
  proof (cases r)
    case None
    with r show ?thesis
      by (simp add: create_meet_event_def io_simps bare_failure_def)
  next
    case (Some created)
    with r f show ?thesis
      by (auto simp: create_meet_event_def io_simps bare_failure_def)
  qed
qed

lemma tool_all_calendars_fault:
  "GoogleCalendarTools_get_all_calendars w c i = Some (l, Inl e) \<Longrightarrow>
   get_all_calendars w c i =
     Some (l, Inr (JObj [(''success'', JBool False),
                         (''error'', JStr (str_of e)),
                         (''message'', JStr ''Failed to retrieve calendars'')]))"
  by (simp add: get_all_calendars_def io_simps tool_failure_def)

lemma tool_all_calendars_shape:
  "get_all_calendars w c i = Some (log, r) \<Longrightarrow>
   \<exists>j. r = Inr j \<and> (field j ''success'' = Some (JBool True) \<or> uniform_failure j)"
proof (cases "GoogleCalendarTools_get_all_calendars w c i")
  case None
  then show "get_all_calendars w c i = Some (log, r) \<Longrightarrow> ?thesis"
    by (simp add: get_all_calendars_def)
next
  case (Some m)
  obtain l res where m: "m = (l, res)" by (cases m)
  assume g: "get_all_calendars w c i = Some (log, r)"
  show ?thesis
  proof (cases res)
    case (Inl e)
    with Some m g show ?thesis
      by (auto simp: tool_all_calendars_fault uniform_failure_def)
  next
    case (Inr calendars)
    with Some m g show ?thesis
      by (auto simp: get_all_calendars_def io_simps)
  qed
qed

lemma list_500_auth:
  "authenticate_google_calendar world_list_500 ''conn-1'' ''google-calendar'' =
     ([VaultGet demo_request], Inr (Service demo_credentials))"
  by (simp add: eval_defs demo_world_def world_list_500_def)

section \<open>C1: an empty summary\<close>

text \<open>
  C1, as amended. \<^verbatim>\<open>create_meet_event\<close> resolves the credential before it looks at the
  summary. With an empty summary it returns \<^verbatim>\<open>None\<close>, its remote calls are exactly those
  of \<^verbatim>\<open>authenticate_google_calendar\<close> (the vault fetch, and the token refresh when one
  is made), and none of them reaches the calendar provider.
\<close>

theorem create_meet_event_empty_summary:
  "snd (GoogleCalendarTools_create_meet_event w c i [] start_datetime end_datetime description
          attendees timezone calendar_id) = Inr None \<and>
   fst (GoogleCalendarTools_create_meet_event w c i [] start_datetime end_datetime description
          attendees timezone calendar_id) = fst (authenticate_google_calendar w c i) \<and>
   filter calendar_call
     (fst (GoogleCalendarTools_create_meet_event w c i [] start_datetime end_datetime description
          attendees timezone calendar_id)) = []"
proof (cases rule: auth_cases [of w c i])
  case (fails l e)
  then show ?thesis
    using auth_log_no_calendar_call [of w c i] by (simp add: create_auth_fails)
next
  case (ok l service)
  then show ?thesis
    using auth_log_no_calendar_call [of w c i] by (simp add: create_auth_ok)
qed

text \<open>With the vault down the only remote call is the vault fetch.\<close>

theorem create_meet_event_empty_summary_witness:
  "snd (GoogleCalendarTools_create_meet_event world_vault_down ''conn-1'' ''google-calendar'' []
          ''2024-12-25T10:00:00'' ''2024-12-25T11:00:00'' [] None ''UTC'' ''primary'') = Inr None \<and>
   fst (GoogleCalendarTools_create_meet_event world_vault_down ''conn-1'' ''google-calendar'' []
          ''2024-12-25T10:00:00'' ''2024-12-25T11:00:00'' [] None ''UTC'' ''primary'') =
     [VaultGet demo_request]"
  using create_meet_event_empty_summary [of world_vault_down "''conn-1''" "''google-calendar''"
          "''2024-12-25T10:00:00''" "''2024-12-25T11:00:00''" "[]" None "''UTC''" "''primary''"]
  by (simp add: vault_down_auth)

text \<open>
  C1 as stated fails: with an empty summary and a working vault, the vault fetch is made
  before the summary is checked.
\<close>

theorem create_meet_event_empty_summary_counterexample:
  "GoogleCalendarTools_create_meet_event demo_world ''conn-1'' ''google-calendar'' []
     ''2024-12-25T10:00:00'' ''2024-12-25T11:00:00'' [] None ''UTC'' ''primary'' =
   ([VaultGet demo_request], Inr None)"
  by (simp add: create_auth_ok [OF demo_auth])

section \<open>C2: nothing crosses the tool boundary\<close>

text \<open>
  C2, as amended. Every tool call that returns, returns an envelope and never a fault: the
  envelope has \<^verbatim>\<open>success: true\<close>, or \<^verbatim>\<open>success: false\<close> with \<^verbatim>\<open>error\<close> and
  \<^verbatim>\<open>message\<close>, or, for \<^verbatim>\<open>create_meet_event\<close> only, \<^verbatim>\<open>success: false\<close> with
  \<^verbatim>\<open>message\<close> and no \<^verbatim>\<open>error\<close>. When the credential resolution raises, every tool
  returns its failure envelope. When the client's \<^verbatim>\<open>get_all_calendars\<close> raises (a fault
  of the credential resolution or of the provider), the tool returns the failure envelope
  whose \<^verbatim>\<open>error\<close> is the text of that fault.
\<close>

theorem tool_boundary:
  "(invoke w c i call = Some (log, r) \<longrightarrow>
      (\<exists>j. r = Inr j \<and>
           (field j ''success'' = Some (JBool True) \<or> uniform_failure j \<or>
            is_create call \<and> bare_failure j))) \<and>
   (authenticate_google_calendar w c i = (l, Inl e) \<longrightarrow>
      (\<exists>log' j. invoke w c i call = Some (log', Inr j) \<and>
                (if is_create call then bare_failure j else uniform_failure j))) \<and>
   (GoogleCalendarTools_get_all_calendars w c i = Some (l, Inl e) \<longrightarrow>
      invoke w c i GetAllCalendars =
        Some (l, Inr (JObj [(''success'', JBool False),
                            (''error'', JStr (str_of e)),
                            (''message'', JStr ''Failed to retrieve calendars'')])))"
proof (intro conjI impI)
  assume inv: "invoke w c i call = Some (log, r)"
  show "\<exists>j. r = Inr j \<and>
           (field j ''success'' = Some (JBool True) \<or> uniform_failure j \<or>
            is_create call \<and> bare_failure j)"
  proof (cases call)
    case GetAllCalendars
    with inv tool_all_calendars_shape [of w c i log r] show ?thesis by auto
  next
    case (GetCalendarEvents cal tmin tmax mx)
    with inv tool_events_shape [of w c i cal tmin tmax mx] show ?thesis by auto
  next
    case (CreateMeetEvent summary s e' d a tz cal)
    with inv tool_create_shape [of w c i summary s e' d a tz cal] show ?thesis by auto
  next
    case (CancelCalendarEvent cal ev)
    with inv tool_cancel_shape [of w c i cal ev] show ?thesis by auto
  next
    case (GetTodayEvents cal)
    with inv tool_today_shape [of w c i cal] show ?thesis by auto
  next
    case (GetUpcomingEvents days cal)
    with inv tool_upcoming_shape [of w c i days cal] show ?thesis by auto
  qed
next
  assume a: "authenticate_google_calendar w c i = (l, Inl e)"
  show "\<exists>log' j. invoke w c i call = Some (log', Inr j) \<and>
                (if is_create call then bare_failure j else uniform_failure j)"
  proof (cases call)
    case GetAllCalendars
    with tool_all_calendars_fault [OF all_calendars_auth_fails [OF a]] show ?thesis
      by (simp add: uniform_failure_def)
  next
    case (GetCalendarEvents cal tmin tmax mx)
    with a tool_events_shape [of w c i cal tmin tmax mx] show ?thesis by auto
  next
    case (CreateMeetEvent summary s e' d a' tz cal)
    with a tool_create_shape [of w c i summary s e' d a' tz cal] show ?thesis by auto
  next
    case (CancelCalendarEvent cal ev)
    with a tool_cancel_shape [of w c i cal ev] show ?thesis by auto
  next
    case (GetTodayEvents cal)
    with a tool_today_shape [of w c i cal] show ?thesis by auto
  next
    case (GetUpcomingEvents days cal)
    with a tool_upcoming_shape [of w c i days cal] show ?thesis by auto
  qed
next
  assume "GoogleCalendarTools_get_all_calendars w c i = Some (l, Inl e)"
  then show "invoke w c i GetAllCalendars =
        Some (l, Inr (JObj [(''success'', JBool False),
                            (''error'', JStr (str_of e)),
                            (''message'', JStr ''Failed to retrieve calendars'')]))"
    by (simp add: tool_all_calendars_fault)
qed

text \<open>A delete answered with 404, a vault that is down, a calendar list answered with 500.\<close>

theorem tool_boundary_witness:
  "(\<exists>log r j. invoke world_delete_404 ''conn-1'' ''google-calendar''
                  (CancelCalendarEvent ''primary'' ''evt-1'') = Some (log, r) \<and>
                r = Inr j \<and>
                (field j ''success'' = Some (JBool True) \<or> uniform_failure j)) \<and>
   authenticate_google_calendar world_vault_down ''conn-1'' ''google-calendar'' =
     ([VaultGet demo_request], Inl (OtherException ''503 Server Error: Service Unavailable'')) \<and>
   (\<exists>log' j. invoke world_vault_down ''conn-1'' ''google-calendar''
                (CancelCalendarEvent ''primary'' ''evt-1'') = Some (log', Inr j) \<and>
              uniform_failure j) \<and>
   GoogleCalendarTools_get_all_calendars world_list_500 ''conn-1'' ''google-calendar'' =
     Some ([VaultGet demo_request, CalendarListList (Service demo_credentials) (request_params None)],
           Inl (HttpError (Some 500) ''HttpError 500 Backend Error'')) \<and>
   invoke world_list_500 ''conn-1'' ''google-calendar'' GetAllCalendars =
     Some ([VaultGet demo_request, CalendarListList (Service demo_credentials) (request_params None)],
           Inr (JObj [(''success'', JBool False),
                      (''error'', JStr ''HttpError 500 Backend Error''),
                      (''message'', JStr ''Failed to retrieve calendars'')]))"
proof -
  have c: "GoogleCalendarTools_get_all_calendars world_list_500 ''conn-1'' ''google-calendar'' =
     Some ([VaultGet demo_request, CalendarListList (Service demo_credentials) (request_params None)],
           Inl (HttpError (Some 500) ''HttpError 500 Backend Error''))"
    unfolding GoogleCalendarTools_get_all_calendars_def list_500_auth
    by (simp add: list_pages_fault world_list_500_def)
  from tool_boundary [of world_vault_down "''conn-1''" "''google-calendar''"
         "CancelCalendarEvent ''primary'' ''evt-1''" _ _ "[VaultGet demo_request]"
         "OtherException ''503 Server Error: Service Unavailable''"] vault_down_auth
  have a: "\<exists>log' j. invoke world_vault_down ''conn-1'' ''google-calendar''
                (CancelCalendarEvent ''primary'' ''evt-1'') = Some (log', Inr j) \<and>
              uniform_failure j"
    by simp
  from tool_boundary [of world_list_500 "''conn-1''" "''google-calendar''" GetAllCalendars _ _
         "[VaultGet demo_request, CalendarListList (Service demo_credentials) (request_params None)]"
         "HttpError (Some 500) ''HttpError 500 Backend Error''"] c
  have b: "invoke world_list_500 ''conn-1'' ''google-calendar'' GetAllCalendars =
     Some ([VaultGet demo_request, CalendarListList (Service demo_credentials) (request_params None)],
           Inr (JObj [(''success'', JBool False),
                      (''error'', JStr ''HttpError 500 Backend Error''),
                      (''message'', JStr ''Failed to retrieve calendars'')]))"
    by simp
  have inv: "invoke world_delete_404 ''conn-1'' ''google-calendar''
               (CancelCalendarEvent ''primary'' ''evt-1'') =
             Some (cancel_calendar_event world_delete_404 ''conn-1'' ''google-calendar''
                     ''primary'' ''evt-1'')"
    by simp
  obtain log r where p: "cancel_calendar_event world_delete_404 ''conn-1'' ''google-calendar''
                     ''primary'' ''evt-1'' = (log, r)"
    by (cases "cancel_calendar_event world_delete_404 ''conn-1'' ''google-calendar''
                     ''primary'' ''evt-1''")
  from tool_boundary [of world_delete_404 "''conn-1''" "''google-calendar''"
         "CancelCalendarEvent ''primary'' ''evt-1''" log r, THEN conjunct1] inv p
  have d: "\<exists>log r j. invoke world_delete_404 ''conn-1'' ''google-calendar''
                  (CancelCalendarEvent ''primary'' ''evt-1'') = Some (log, r) \<and>
                r = Inr j \<and>
                (field j ''success'' = Some (JBool True) \<or> uniform_failure j)"
    by auto
  from d vault_down_auth a c b show ?thesis by blast
qed

text \<open>
  C2 as stated fails: when the vault is down, the envelope of \<^verbatim>\<open>create_meet_event\<close> has
  no \<^verbatim>\<open>error\<close> member.
\<close>

theorem tool_boundary_counterexample:
  "invoke world_vault_down ''conn-1'' ''google-calendar''
     (CreateMeetEvent ''Standup'' ''2024-12-25T10:00:00'' ''2024-12-25T11:00:00'' [] None ''UTC''
        ''primary'') =
     Some ([VaultGet demo_request],
           Inr (JObj [(''success'', JBool False), (''message'', JStr ''Failed to create event'')]))"
  by (simp add: create_meet_event_def create_auth_fails [OF vault_down_auth] io_simps)

section \<open>C3: the envelope of cancel_calendar_event\<close>

text \<open>
  C3, as amended. \<^verbatim>\<open>cancel_calendar_event\<close> never raises; every result carries
  \<^verbatim>\<open>message\<close> and \<^verbatim>\<open>event_id\<close>; a success carries \<^verbatim>\<open>calendar_id\<close> and no
  \<^verbatim>\<open>error\<close>, a failure carries \<^verbatim>\<open>error\<close> and no \<^verbatim>\<open>calendar_id\<close>. When the
  provider's delete fails with an HTTP error, the result is a failure whose error kind is
  \<^verbatim>\<open>event_not_found\<close> for status 404, \<^verbatim>\<open>permission_denied\<close> for 403 and
  \<^verbatim>\<open>http_error\<close> otherwise.
\<close>

theorem cancel_calendar_event_envelope:
  "\<exists>l d. GoogleCalendarTools_cancel_calendar_event w c i calendar_id event_id = (l, Inr d) \<and>
          map_of d ''message'' \<noteq> None \<and>
          map_of d ''event_id'' = Some (JStr event_id) \<and>
          ((map_of d ''success'' = Some (JBool True) \<and> map_of d ''error'' = None \<and>
            map_of d ''calendar_id'' = Some (JStr calendar_id)) \<or>
           (map_of d ''success'' = Some (JBool False) \<and> map_of d ''error'' \<noteq> None \<and>
            map_of d ''calendar_id'' = None)) \<and>
          (\<forall>l0 service st s.
             authenticate_google_calendar w c i = (l0, Inr service) \<and>
             events_delete w service calendar_id event_id = Inl (HttpError st s) \<longrightarrow>
             map_of d ''success'' = Some (JBool False) \<and>
             map_of d ''error'' =
               Some (JStr (if st = Some 404 then ''event_not_found''
                           else if st = Some 403 then ''permission_denied''
                           else ''http_error'')))"
proof (cases rule: auth_cases [of w c i])
  case (fails l e)
  then show ?thesis
    by (simp add: cancel_auth_fails cancel_error_fields del: not_None_eq)
next
  case (ok l service)
  show ?thesis
  proof (cases "events_delete w service calendar_id event_id")
    case (Inl error)
    with ok show ?thesis
      by (auto simp: cancel_auth_ok cancel_error_fields cancel_error_kind simp del: not_None_eq)
  next
    case (Inr u)
    with ok show ?thesis
      by (simp add: cancel_auth_ok)
  qed
qed

text \<open>
  C3 as stated fails: the failure envelope of a delete answered with 404 has no
  \<^verbatim>\<open>calendar_id\<close>.
\<close>

theorem cancel_calendar_event_envelope_counterexample:
  "GoogleCalendarTools_cancel_calendar_event world_delete_404 ''conn-1'' ''google-calendar''
     ''primary'' ''evt-1'' =
   ([VaultGet demo_request, EventsDelete (Service demo_credentials) ''primary'' ''evt-1''],
    Inr [(''success'', JBool False),
         (''message'', JStr ''Event not found: evt-1''),
         (''error'', JStr ''event_not_found''),
         (''event_id'', JStr ''evt-1'')])"
  unfolding cancel_auth_ok [OF delete_404_auth]
  by (simp add: world_delete_404_def cancel_error_def)

text \<open>The same call, through the theorem.\<close>

theorem cancel_calendar_event_envelope_witness:
  "\<exists>l d. GoogleCalendarTools_cancel_calendar_event world_delete_404 ''conn-1'' ''google-calendar''
            ''primary'' ''evt-1'' = (l, Inr d) \<and>
          authenticate_google_calendar world_delete_404 ''conn-1'' ''google-calendar'' =
            ([VaultGet demo_request], Inr (Service demo_credentials)) \<and>
          events_delete world_delete_404 (Service demo_credentials) ''primary'' ''evt-1'' =
            Inl (HttpError (Some 404) ''HttpError 404 Not Found'') \<and>
          map_of d ''success'' = Some (JBool False) \<and>
          map_of d ''error'' = Some (JStr ''event_not_found'') \<and>
          map_of d ''event_id'' = Some (JStr ''evt-1'') \<and>
          map_of d ''calendar_id'' = None"
proof -
  have del: "events_delete world_delete_404 (Service demo_credentials) ''primary'' ''evt-1'' =
               Inl (HttpError (Some 404) ''HttpError 404 Not Found'')"
    by (simp add: world_delete_404_def)
  from cancel_calendar_event_envelope [of world_delete_404 "''conn-1''" "''google-calendar''"
         "''primary''" "''evt-1''"]
  obtain l d where
    r: "GoogleCalendarTools_cancel_calendar_event world_delete_404 ''conn-1'' ''google-calendar''
          ''primary'' ''evt-1'' = (l, Inr d)"
    and ev: "map_of d ''event_id'' = Some (JStr ''evt-1'')"
    and shape: "(map_of d ''success'' = Some (JBool True) \<and> map_of d ''error'' = None \<and>
            map_of d ''calendar_id'' = Some (JStr ''primary'')) \<or>
           (map_of d ''success'' = Some (JBool False) \<and> map_of d ''error'' \<noteq> None \<and>
            map_of d ''calendar_id'' = None)"
    and kind: "\<forall>l0 service st s.
             authenticate_google_calendar world_delete_404 ''conn-1'' ''google-calendar'' = (l0, Inr service) \<and>
             events_delete world_delete_404 service ''primary'' ''evt-1'' = Inl (HttpError st s) \<longrightarrow>
             map_of d ''success'' = Some (JBool False) \<and>
             map_of d ''error'' =
               Some (JStr (if st = Some 404 then ''event_not_found''
                           else if st = Some 403 then ''permission_denied''
                           else ''http_error''))"
    by blast
  from kind delete_404_auth del
  have k: "map_of d ''success'' = Some (JBool False) \<and> map_of d ''error'' = Some (JStr ''event_not_found'')"
    by fastforce
  with shape have "map_of d ''calendar_id'' = None" by auto
  with r ev k delete_404_auth del show ?thesis by blast
qed

section \<open>C4: what is checked when the module is loaded\<close>

text \<open>
  C4, as amended. Loading the module fails exactly when the connection identifier or the
  integration identifier is absent or empty, and then no tool call is served. The vault's
  base URL and secret key are not checked then but at each credential fetch: when either is
  absent or empty, \<^verbatim>\<open>authenticate_google_calendar\<close> raises a \<^verbatim>\<open>ValueError\<close> before any
  request is sent.
\<close>

theorem startup_checks:
  "((\<exists>e. startup w = Inl e) \<longleftrightarrow>
      \<not> truthy (environ w ''NANGO_CONNECTION_ID'') \<or> \<not> truthy (environ w ''NANGO_INTEGRATION_ID'')) \<and>
   (startup w = Inl e \<longrightarrow> serve w calls = Inl e) \<and>
   (\<not> truthy (environ w ''NANGO_NANGO_BASE_URL'') \<or> \<not> truthy (environ w ''NANGO_NANGO_SECRET_KEY'') \<longrightarrow>
      authenticate_google_calendar w c i =
        ([], Inl (ValueError ''NANGO_NANGO_BASE_URL and NANGO_NANGO_SECRET_KEY must be set'')))"
proof -
  have a: "startup w = Inl e \<longrightarrow> serve w calls = Inl e"
    by (simp add: serve_def)
  have b: "\<not> truthy (environ w ''NANGO_NANGO_BASE_URL'') \<or> \<not> truthy (environ w ''NANGO_NANGO_SECRET_KEY'') \<longrightarrow>
      authenticate_google_calendar w c i =
        ([], Inl (ValueError ''NANGO_NANGO_BASE_URL and NANGO_NANGO_SECRET_KEY must be set''))"
    using vault_config_missing [of w c i] auth_propagates by blast
  from startup_fails_iff [of w] a b show ?thesis by blast
qed

text \<open>One world without the connection identifier, one without the vault's configuration.\<close>

theorem startup_checks_witness:
  "startup world_no_connection_id =
     Inl (ValueError ''NANGO_CONNECTION_ID environment variable is required'') \<and>
   serve world_no_connection_id [GetAllCalendars] =
     Inl (ValueError ''NANGO_CONNECTION_ID environment variable is required'') \<and>
   startup world_no_vault_config = Inr (''conn-1'', ''google-calendar'') \<and>
   authenticate_google_calendar world_no_vault_config ''conn-1'' ''google-calendar'' =
     ([], Inl (ValueError ''NANGO_NANGO_BASE_URL and NANGO_NANGO_SECRET_KEY must be set''))"
proof -
  have s1: "startup world_no_connection_id =
              Inl (ValueError ''NANGO_CONNECTION_ID environment variable is required'')"
    by (simp add: startup_def world_no_connection_id_def demo_world_def)
  have s2: "startup world_no_vault_config = Inr (''conn-1'', ''google-calendar'')"
    by (simp add: startup_def world_no_vault_config_def demo_world_def)
  have m: "\<not> truthy (environ world_no_vault_config ''NANGO_NANGO_BASE_URL'') \<or>
           \<not> truthy (environ world_no_vault_config ''NANGO_NANGO_SECRET_KEY'')"
    by (simp add: truthy_def world_no_vault_config_def demo_world_def)
  from startup_checks [of world_no_connection_id
         "ValueError ''NANGO_CONNECTION_ID environment variable is required''" "[GetAllCalendars]"] s1
  have v1: "serve world_no_connection_id [GetAllCalendars] =
              Inl (ValueError ''NANGO_CONNECTION_ID environment variable is required'')"
    by blast
  from startup_checks [of world_no_vault_config _ _ "''conn-1''" "''google-calendar''"] m
  have v2: "authenticate_google_calendar world_no_vault_config ''conn-1'' ''google-calendar'' =
     ([], Inl (ValueError ''NANGO_NANGO_BASE_URL and NANGO_NANGO_SECRET_KEY must be set''))"
    by blast
  from s1 s2 v1 v2 show ?thesis by blast
qed

text \<open>
  C4 as stated fails: without the vault's base URL and secret key the process starts and
  serves the call, which returns a failure envelope.
\<close>

theorem startup_checks_counterexample:
  "serve world_no_vault_config [GetCalendarEvents ''primary'' None None 10] =
     Inr [Some ([], Inr (JObj
       [(''success'', JBool False),
        (''message'', JStr ''Unexpected error occurred: NANGO_NANGO_BASE_URL and NANGO_NANGO_SECRET_KEY must be set''),
        (''error'', JStr ''unexpected_error''),
        (''calendar_id'', JStr ''primary'')]))]"
proof -
  have s2: "startup world_no_vault_config = Inr (''conn-1'', ''google-calendar'')"
    by (simp add: startup_def world_no_vault_config_def demo_world_def)
  show ?thesis
    by (simp add: serve_def s2 get_calendar_events_def events_auth_fails [OF no_vault_config_auth]
          io_simps events_error_def)
qed


section \<open>C5: the window of get_today_events\<close>




section \<open>C6: get_calendar_events embeds every failure\<close>

text \<open>
  C6. \<^verbatim>\<open>get_calendar_events\<close> never raises: every call returns an envelope. When the
  provider's events call fails, the envelope has \<^verbatim>\<open>success: false\<close> and its error kind is
  \<^verbatim>\<open>http_error_<status>\<close> for an \<^verbatim>\<open>HttpError\<close> with status \<open>status\<close>
  (\<^verbatim>\<open>http_error_unknown\<close> for one without a response object) and \<^verbatim>\<open>unexpected_error\<close>
  for any other fault; a fault of the credential resolution is embedded the same way.
\<close>

theorem get_calendar_events_never_raises:
  "\<exists>l d. GoogleCalendarTools_get_calendar_events w c i calendar_id time_min time_max max_results =
            (l, Inr d) \<and>
          (\<forall>l0 service e.
             authenticate_google_calendar w c i = (l0, Inr service) \<and>
             events_list w service (events_params calendar_id time_min time_max max_results) = Inl e \<longrightarrow>
             map_of d ''success'' = Some (JBool False) \<and>
             map_of d ''error'' =
               Some (JStr (case e of
                             HttpError (Some status) s \<Rightarrow> ''http_error_'' @ show_nat status
                           | HttpError None s \<Rightarrow> ''http_error_unknown''
                           | _ \<Rightarrow> ''unexpected_error''))) \<and>
          (\<forall>l0 e.
             authenticate_google_calendar w c i = (l0, Inl e) \<longrightarrow>
             map_of d ''success'' = Some (JBool False) \<and>
             map_of d ''error'' =
               Some (JStr (case e of
                             HttpError (Some status) s \<Rightarrow> ''http_error_'' @ show_nat status
                           | HttpError None s \<Rightarrow> ''http_error_unknown''
                           | _ \<Rightarrow> ''unexpected_error'')))"
proof (cases rule: auth_cases [of w c i])
  case (fails l e)
  then show ?thesis
    by (simp add: events_auth_fails events_error_fields)
next
  case (ok l service)
  show ?thesis
  proof (cases "events_list w service (events_params calendar_id time_min time_max max_results)")
    case (Inl error)
    with ok show ?thesis
      by (simp add: events_auth_ok events_error_fields)
  next
    case (Inr events_result)
    with ok show ?thesis
      by (simp add: events_auth_ok)
  qed
qed

text \<open>A provider answering the events request with status 500.\<close>

theorem get_calendar_events_never_raises_witness:
  "\<exists>l d. GoogleCalendarTools_get_calendar_events world_events_500 ''conn-1'' ''google-calendar''
            ''primary'' None None 10 = (l, Inr d) \<and>
          authenticate_google_calendar world_events_500 ''conn-1'' ''google-calendar'' =
            ([VaultGet demo_request], Inr (Service demo_credentials)) \<and>
          events_list world_events_500 (Service demo_credentials)
            (events_params ''primary'' None None 10) =
            Inl (HttpError (Some 500) ''HttpError 500 Backend Error'') \<and>
          map_of d ''success'' = Some (JBool False) \<and>
          map_of d ''error'' = Some (JStr ''http_error_500'')"
proof -
  have ev: "events_list world_events_500 (Service demo_credentials)
              (events_params ''primary'' None None 10) =
            Inl (HttpError (Some 500) ''HttpError 500 Backend Error'')"
    by (simp add: world_events_500_def)
  from get_calendar_events_never_raises [of world_events_500 "''conn-1''" "''google-calendar''"
         "''primary''" None None 10]
  obtain l d where
    r: "GoogleCalendarTools_get_calendar_events world_events_500 ''conn-1'' ''google-calendar''
          ''primary'' None None 10 = (l, Inr d)"
    and kind: "\<forall>l0 service e.
             authenticate_google_calendar world_events_500 ''conn-1'' ''google-calendar'' = (l0, Inr service) \<and>
             events_list world_events_500 service (events_params ''primary'' None None 10) = Inl e \<longrightarrow>
             map_of d ''success'' = Some (JBool False) \<and>
             map_of d ''error'' =
               Some (JStr (case e of
                             HttpError (Some status) s \<Rightarrow> ''http_error_'' @ show_nat status
                           | HttpError None s \<Rightarrow> ''http_error_unknown''
                           | _ \<Rightarrow> ''unexpected_error''))"
    by blast
  from kind events_500_auth ev
  have "map_of d ''success'' = Some (JBool False) \<and>
        map_of d ''error'' = Some (JStr (''http_error_'' @ show_nat 500))"
    by fastforce
  then have "map_of d ''success'' = Some (JBool False) \<and>
        map_of d ''error'' = Some (JStr ''http_error_500'')"
    by (simp add: show_nat_500)
  with r events_500_auth ev show ?thesis by blast
qed

section \<open>C7: a credential that is already expired\<close>

text \<open>
  C7, on the code. \<^verbatim>\<open>authenticate_google_calendar\<close> builds the credential without an
  expiry, so the library never reports it expired and the refresh exchange of the source is
  never reached (\<open>never_expired\<close>, \<open>authenticate_result\<close>). At a vault that hands out an
  access token whose lifetime has ended: with a refresh token, no refresh exchange is made
  and the service is built on the stale token; without a refresh token, the operation does
  not fail either; in both cases \<^verbatim>\<open>cancel_calendar_event\<close> goes on to the calendar call.
\<close>

theorem stale_credential_not_refreshed:
  "authenticate_google_calendar world_stale_token ''conn-1'' ''google-calendar'' =
     ([VaultGet demo_request], Inr (Service stale_credentials)) \<and>
   fst (GoogleCalendarTools_cancel_calendar_event world_stale_token ''conn-1'' ''google-calendar''
          ''primary'' ''evt-1'') =
     [VaultGet demo_request, EventsDelete (Service stale_credentials) ''primary'' ''evt-1''] \<and>
   authenticate_google_calendar world_stale_no_refresh ''conn-1'' ''google-calendar'' =
     ([VaultGet demo_request], Inr (Service stale_credentials_no_refresh)) \<and>
   fst (GoogleCalendarTools_cancel_calendar_event world_stale_no_refresh ''conn-1'' ''google-calendar''
          ''primary'' ''evt-1'') =
     [VaultGet demo_request,
      EventsDelete (Service stale_credentials_no_refresh) ''primary'' ''evt-1'']"
proof -
  have a1: "authenticate_google_calendar world_stale_token ''conn-1'' ''google-calendar'' =
     ([VaultGet demo_request], Inr (Service stale_credentials))"
    by (simp add: eval_defs demo_world_def world_stale_token_def stale_credentials_def)
  have a2: "authenticate_google_calendar world_stale_no_refresh ''conn-1'' ''google-calendar'' =
     ([VaultGet demo_request], Inr (Service stale_credentials_no_refresh))"
    by (simp add: eval_defs demo_world_def world_stale_no_refresh_def
          stale_credentials_no_refresh_def)
  show ?thesis
    by (simp add: a1 a2 cancel_auth_ok [OF a1] cancel_auth_ok [OF a2])
qed

section \<open>C8: the pages of get_all_calendars\<close>

text \<open>
  C8. After a successful credential resolution: whenever the provider, asked first without
  a page token and then with the continuation token of each page, serves a sequence of
  pages of which every page but the last carries a continuation token (a non-empty
  \<^verbatim>\<open>nextPageToken\<close>) and the last carries none, \<^verbatim>\<open>get_all_calendars\<close> returns the
  concatenation of the pages' items in page order, having made exactly one request for each
  page: the first without a page token, each later one with the token of the page before.
  Conversely, whenever it returns a list, the provider has served such a sequence and the
  list is its concatenation: the loop asks for a further page exactly when the last answer
  carried a token.
\<close>

theorem get_all_calendars_pages:
  assumes "authenticate_google_calendar w c i = (l, Inr service)"
  shows "(serves w service 0 first_request pages \<longrightarrow>
            GoogleCalendarTools_get_all_calendars w c i =
              Some (l @ page_requests service first_request pages,
                    Inr (concat (map page_items pages))) \<and>
            length (page_requests service first_request pages) = length pages) \<and>
         (GoogleCalendarTools_get_all_calendars w c i = Some (log, Inr calendars) \<longrightarrow>
            (\<exists>served. serves w service 0 first_request served \<and>
                      log = l @ page_requests service first_request served \<and>
                      calendars = concat (map page_items served)))"
proof (intro conjI impI)
  assume s: "serves w service 0 first_request pages"
  then have s': "serves w service 0 (request_params None) pages"
    by (simp add: request_params_None)
  show "GoogleCalendarTools_get_all_calendars w c i =
          Some (l @ page_requests service first_request pages, Inr (concat (map page_items pages)))"
    using assms list_pages_serves [OF s', of "[]" l]
    by (simp add: GoogleCalendarTools_get_all_calendars_def request_params_None)
  show "length (page_requests service first_request pages) = length pages"
    by (rule page_requests_length [OF s])
next
  assume "GoogleCalendarTools_get_all_calendars w c i = Some (log, Inr calendars)"
  with assms have "list_pages w service 0 None [] l = Some (log, Inr calendars)"
    by (simp add: GoogleCalendarTools_get_all_calendars_def)
  from list_pages_returns [OF this]
  show "\<exists>served. serves w service 0 first_request served \<and>
                  log = l @ page_requests service first_request served \<and>
                  calendars = concat (map page_items served)"
    by (simp add: request_params_None)
qed

text \<open>
  Three pages, the first two with items and a token, the last with neither; the provider
  hands out the second and third page only for the tokens \<^verbatim>\<open>t1\<close> and \<^verbatim>\<open>t2\<close>.
\<close>

theorem get_all_calendars_pages_witness:
  "serves world_three_pages (Service demo_credentials) 0 first_request
     [\<lparr> cal_items = Some [JStr ''a''], nextPageToken = Some ''t1'' \<rparr>,
      \<lparr> cal_items = Some [JStr ''b'', JStr ''c''], nextPageToken = Some ''t2'' \<rparr>,
      \<lparr> cal_items = None, nextPageToken = None \<rparr>] \<and>
   GoogleCalendarTools_get_all_calendars world_three_pages ''conn-1'' ''google-calendar'' =
     Some ([VaultGet demo_request,
            CalendarListList (Service demo_credentials) first_request,
            CalendarListList (Service demo_credentials) (next_request ''t1''),
            CalendarListList (Service demo_credentials) (next_request ''t2'')],
           Inr [JStr ''a'', JStr ''b'', JStr ''c''])"
proof -
  have s: "serves world_three_pages (Service demo_credentials) 0 first_request
     [\<lparr> cal_items = Some [JStr ''a''], nextPageToken = Some ''t1'' \<rparr>,
      \<lparr> cal_items = Some [JStr ''b'', JStr ''c''], nextPageToken = Some ''t2'' \<rparr>,
      \<lparr> cal_items = None, nextPageToken = None \<rparr>]"
    by (simp add: world_three_pages_def truthy_def first_request_def next_request_def)
  from get_all_calendars_pages [OF three_pages_auth, THEN conjunct1, THEN mp, OF s]
  have "GoogleCalendarTools_get_all_calendars world_three_pages ''conn-1'' ''google-calendar'' =
     Some ([VaultGet demo_request,
            CalendarListList (Service demo_credentials) first_request,
            CalendarListList (Service demo_credentials) (next_request ''t1''),
            CalendarListList (Service demo_credentials) (next_request ''t2'')],
           Inr [JStr ''a'', JStr ''b'', JStr ''c''])"
    by (simp add: page_items_def)
  with s show ?thesis by blast
qed

section \<open>C9: max_results = 0\<close>



section \<open>C10: the envelope of get_calendar_events\<close>

text \<open>
  C10. Every envelope of \<^verbatim>\<open>get_calendar_events\<close>, success or failure, has
  \<^verbatim>\<open>calendar_id\<close> equal to the argument. A success envelope comes from a provider answer:
  its \<^verbatim>\<open>events\<close> are the provider's items in their order, each mapped by
  \<open>formatted_event\<close>, and \<^verbatim>\<open>total_events\<close> is their number. A formatted event has the
  item's \<^verbatim>\<open>summary\<close>, or \<^verbatim>\<open>No Title\<close> when the item has none.
\<close>

theorem get_calendar_events_envelope:
  "\<exists>l d. GoogleCalendarTools_get_calendar_events w c i calendar_id time_min time_max max_results =
            (l, Inr d) \<and>
          map_of d ''calendar_id'' = Some (JStr calendar_id) \<and>
          (map_of d ''success'' = Some (JBool False) \<or>
           map_of d ''success'' = Some (JBool True) \<and>
           (\<exists>l0 service events_result.
              authenticate_google_calendar w c i = (l0, Inr service) \<and>
              events_list w service (events_params calendar_id time_min time_max max_results) =
                Inr events_result \<and>
              map_of d ''events'' =
                Some (JList (map (formatted_event calendar_id) (events_of events_result))) \<and>
              map_of d ''total_events'' = Some (JInt (int (length (events_of events_result)))))) \<and>
          field (formatted_event calendar_id event) ''summary'' =
            Some (case map_of event ''summary'' of None \<Rightarrow> JStr ''No Title'' | Some title \<Rightarrow> title)"
proof -
  have title: "field (formatted_event calendar_id event) ''summary'' =
            Some (case map_of event ''summary'' of None \<Rightarrow> JStr ''No Title'' | Some title \<Rightarrow> title)"
    by (simp add: formatted_event_def get_default_def)
  show ?thesis
  proof (cases rule: auth_cases [of w c i])
    case (fails l e)
    then show ?thesis
      using title by (simp add: events_auth_fails events_error_fields)
  next
    case (ok l service)
    show ?thesis
    proof (cases "events_list w service (events_params calendar_id time_min time_max max_results)")
      case (Inl error)
      with ok title show ?thesis
        by (simp add: events_auth_ok events_error_fields)
    next
      case (Inr events_result)
      with ok title show ?thesis
        by (simp add: events_auth_ok)
    qed
  qed
qed

text \<open>Two events, the second without a title.\<close>

theorem get_calendar_events_envelope_witness:
  "\<exists>l d. GoogleCalendarTools_get_calendar_events world_two_events ''conn-1'' ''google-calendar''
            ''work'' None None 10 = (l, Inr d) \<and>
          map_of d ''calendar_id'' = Some (JStr ''work'') \<and>
          map_of d ''success'' = Some (JBool True) \<and>
          map_of d ''events'' =
            Some (JList [formatted_event ''work'' [(''id'', JStr ''e1''), (''summary'', JStr ''Standup'')],
                         formatted_event ''work'' [(''id'', JStr ''e2'')]]) \<and>
          map_of d ''total_events'' = Some (JInt 2) \<and>
          field (formatted_event ''work'' [(''id'', JStr ''e2'')]) ''summary'' = Some (JStr ''No Title'')"
proof -
  have run: "GoogleCalendarTools_get_calendar_events world_two_events ''conn-1'' ''google-calendar''
               ''work'' None None 10 =
     ([VaultGet demo_request,
       EventsList (Service demo_credentials) (events_params ''work'' None None 10)],
      Inr [(''success'', JBool True),
           (''events'', JList [formatted_event ''work'' [(''id'', JStr ''e1''), (''summary'', JStr ''Standup'')],
                                formatted_event ''work'' [(''id'', JStr ''e2'')]]),
           (''total_events'', JInt 2),
           (''calendar_id'', JStr ''work''),
           (''message'', JStr ''Retrieved 2 events successfully'')])"
    unfolding events_auth_ok [OF two_events_auth]
    by (simp add: world_two_events_def events_of_def show_nat.simps [of "Suc (Suc 0)"] digit_def)
  from get_calendar_events_envelope [of world_two_events "''conn-1''" "''google-calendar''"
          "''work''" None None 10 "[(''id'', JStr ''e2'')]"]
  obtain l d where
    r: "GoogleCalendarTools_get_calendar_events world_two_events ''conn-1'' ''google-calendar''
          ''work'' None None 10 = (l, Inr d)"
    and cal: "map_of d ''calendar_id'' = Some (JStr ''work'')"
    and title: "field (formatted_event ''work'' [(''id'', JStr ''e2'')]) ''summary'' =
                  Some (case map_of [(''id'', JStr ''e2'')] ''summary'' of
                          None \<Rightarrow> JStr ''No Title'' | Some title \<Rightarrow> title)"
    by blast
  from title have t: "field (formatted_event ''work'' [(''id'', JStr ''e2'')]) ''summary'' =
                        Some (JStr ''No Title'')"
    by simp
  from r run have d: "d = [(''success'', JBool True),
           (''events'', JList [formatted_event ''work'' [(''id'', JStr ''e1''), (''summary'', JStr ''Standup'')],
                                formatted_event ''work'' [(''id'', JStr ''e2'')]]),
           (''total_events'', JInt 2),
           (''calendar_id'', JStr ''work''),
           (''message'', JStr ''Retrieved 2 events successfully'')]"
    by simp
  have "map_of d ''success'' = Some (JBool True) \<and>
        map_of d ''events'' =
            Some (JList [formatted_event ''work'' [(''id'', JStr ''e1''), (''summary'', JStr ''Standup'')],
                         formatted_event ''work'' [(''id'', JStr ''e2'')]]) \<and>
        map_of d ''total_events'' = Some (JInt 2)"
    unfolding d by simp
  with r cal t show ?thesis by blast
qed

end
